theory Spec2Isabelle
  imports Main "HOL-Library.Word"
begin

unbundle bit_operations_syntax

section \<open>Data model of gif.h\<close>

text \<open>
  The decoder of \<^verbatim>\<open>gif.h\<close> in its default configuration
  (\<^verbatim>\<open>GIF_MODE_TURBO\<close> is not defined, so the ``safe'' dictionary is compiled).

  Conventions of the embedding.
  \<^item> Every C buffer reached through a pointer (the input, the scratch region, the
    palettes, the caller's frame buffer) is a store \<open>nat \<Rightarrow> u8\<close> indexed by the byte
    offset from that pointer. The C code indexes these buffers without bounds checks in
    several places; a store gives every offset a value, so a read or write at an offset
    is modelled at that offset, whatever the size of the C array.
  \<^item> The scratch region is one store, \<open>scratch_memory\<close>, and the four scratch
    pointers of the context are byte offsets into it: the bit-stream buffer, the link
    table, the pixel table and the line buffer lie one behind the other, and an index
    that leaves one of them reaches the next.
  \<^item> A call that does not come back (a loop that the given fuel does not end, a
    \<^verbatim>\<open>memset\<close> over the whole address space) has the result \<open>None\<close>.
  \<^item> \<^verbatim>\<open>size_t\<close> values are \<open>nat\<close>: the library itself never asks for more than
    768 bytes at once, so \<^verbatim>\<open>current_pos + len\<close> does not wrap.
  \<^item> \<^verbatim>\<open>int\<close> locals are \<open>int\<close>; the fixed-width fields are words.
  \<^item> The error callback is modelled by its observable effect: when one is installed,
    each call of \<^verbatim>\<open>gif_report_error\<close> appends the code and message to a log.
  \<^item> The API functions check their pointer arguments against NULL; the model's
    arguments are values, so those branches have no counterpart.
\<close>

type_synonym u8 = "8 word"
type_synonym u16 = "16 word"
type_synonym u32 = "32 word"
type_synonym bytes = "nat \<Rightarrow> u8"

definition GIF_MAX_WIDTH :: nat where "GIF_MAX_WIDTH = 480"
definition GIF_MAX_COLORS :: nat where "GIF_MAX_COLORS = 256"
definition GIF_MAX_CODE_SIZE :: nat where "GIF_MAX_CODE_SIZE = 12"
definition GIF_LZW_CHUNK_SIZE :: nat where "GIF_LZW_CHUNK_SIZE = 255"
definition GIF_LZW_BASE_BUF_SIZE :: nat where "GIF_LZW_BASE_BUF_SIZE = 6 * 255"
definition GIF_LZW_TABLE_ENTRIES :: nat where "GIF_LZW_TABLE_ENTRIES = 4096"
definition GIF_SCRATCH_BUFFER_REQUIRED_SIZE :: nat where
  "GIF_SCRATCH_BUFFER_REQUIRED_SIZE = 6 * 255 + 4096 * 2 + 4096 * 2 * 1 + 480"

datatype gif_error =
    GIF_SUCCESS
  | GIF_ERROR_DECODE
  | GIF_ERROR_INVALID_PARAM
  | GIF_ERROR_BAD_FILE
  | GIF_ERROR_EARLY_EOF
  | GIF_ERROR_NO_FRAME
  | GIF_ERROR_BUFFER_TOO_SMALL
  | GIF_ERROR_INVALID_FRAME_DIMENSIONS
  | GIF_ERROR_UNSUPPORTED_COLOR_DEPTH

text \<open>\<^verbatim>\<open>active_palette_colors\<close> points at one of the two palette arrays of the context.\<close>

datatype palette_ptr = Global_Palette | Local_Palette

record GIF_Context =
  gif_data :: bytes
  gif_size :: nat
  current_pos :: nat
  canvas_width :: u32
  canvas_height :: u32
  frame_width :: u32
  frame_height :: u32
  frame_x_off :: u16
  frame_y_off :: u16
  frame_delay_ms :: u16
  loop_count :: u16
  background_index :: u8
  transparent_index :: u8
  has_transparency :: u8
  disposal_method :: u8
  ucGIFBits :: u8
  global_palette_colors :: bytes
  local_palette_colors :: bytes
  active_palette_colors :: palette_ptr
  lzw_code_start_size :: u8
  lzw_end_of_frame :: u8
  lzw_read_offset :: int
  lzw_data_size :: int
  scratch_lzw_buffer :: nat
  scratch_lzw_table :: nat
  scratch_lzw_pixels :: nat
  scratch_line_buffer :: nat
  anim_start_pos :: nat
  file_buf :: bytes
  error_callback :: bool
  callback_log :: "(gif_error \<times> string) list"
  scratch_memory :: bytes

section \<open>Stream reader\<close>

definition gif_report_error :: "GIF_Context \<Rightarrow> gif_error \<Rightarrow> string \<Rightarrow> GIF_Context" where
  "gif_report_error ctx error_code message =
     (if error_callback ctx
      then ctx\<lparr>callback_log := callback_log ctx @ [(error_code, message)]\<rparr>
      else ctx)"

text \<open>\<^verbatim>\<open>memcpy(&value, data, 2)\<close> on a little-endian host.\<close>

definition gif_read_u16_le :: "bytes \<Rightarrow> nat \<Rightarrow> u16" where
  "gif_read_u16_le data off = ucast (data off) OR push_bit 8 (ucast (data (off + 1)))"

text \<open>\<^verbatim>\<open>memcpy(dst + doff, src + soff, n)\<close> on two stores.\<close>

definition memcpy :: "bytes \<Rightarrow> nat \<Rightarrow> bytes \<Rightarrow> nat \<Rightarrow> nat \<Rightarrow> bytes" where
  "memcpy dst doff src soff n =
     (\<lambda>i. if doff \<le> i \<and> i < doff + n then src (soff + (i - doff)) else dst i)"

text \<open>\<^verbatim>\<open>memset(mem + off, v, n)\<close>.\<close>

definition memset :: "bytes \<Rightarrow> nat \<Rightarrow> u8 \<Rightarrow> nat \<Rightarrow> bytes" where
  "memset mem off v n = (\<lambda>i. if off \<le> i \<and> i < off + n then v else mem i)"

text \<open>A store to a \<^verbatim>\<open>uint16_t\<close> cell at byte offset \<open>off\<close>, on a little-endian host.\<close>

definition write_u16_le :: "bytes \<Rightarrow> nat \<Rightarrow> u16 \<Rightarrow> bytes" where
  "write_u16_le mem off v = mem(off := ucast v, off + 1 := ucast (drop_bit 8 v))"

text \<open>
  \<open>gif_read_bytes_internal ctx buffer off len\<close> copies into \<open>buffer + off\<close> and returns
  the count read, the context and the destination.
\<close>

definition gif_read_bytes_internal ::
  "GIF_Context \<Rightarrow> bytes \<Rightarrow> nat \<Rightarrow> nat \<Rightarrow> nat \<times> GIF_Context \<times> bytes" where
  "gif_read_bytes_internal ctx buffer off len =
     (let bytes_to_read =
            (if current_pos ctx + len > gif_size ctx
             then gif_size ctx - current_pos ctx else len)
      in if bytes_to_read > 0
         then (bytes_to_read,
               ctx\<lparr>current_pos := current_pos ctx + bytes_to_read\<rparr>,
               memcpy buffer off (gif_data ctx) (current_pos ctx) bytes_to_read)
         else (bytes_to_read, ctx, buffer))"

definition gif_skip_bytes_internal :: "GIF_Context \<Rightarrow> nat \<Rightarrow> GIF_Context" where
  "gif_skip_bytes_internal ctx len =
     (if current_pos ctx + len \<le> gif_size ctx
      then ctx\<lparr>current_pos := current_pos ctx + len\<rparr>
      else ctx\<lparr>current_pos := gif_size ctx\<rparr>)"

definition gif_read_byte_internal :: "GIF_Context \<Rightarrow> u8 \<times> GIF_Context" where
  "gif_read_byte_internal ctx =
     (if current_pos ctx < gif_size ctx
      then (gif_data ctx (current_pos ctx), ctx\<lparr>current_pos := current_pos ctx + 1\<rparr>)
      else (0, gif_report_error ctx GIF_ERROR_EARLY_EOF ''Unexpected EOF while reading byte.''))"

function gif_discard_sub_blocks :: "GIF_Context \<Rightarrow> GIF_Context" where
  "gif_discard_sub_blocks ctx =
     (case gif_read_byte_internal ctx of (size_b, ctx1) \<Rightarrow>
        if size_b = 0 \<and> current_pos ctx1 \<ge> gif_size ctx1
        then gif_report_error ctx1 GIF_ERROR_EARLY_EOF
               ''Unexpected EOF while discarding sub-blocks.''
        else if size_b \<noteq> 0
             then gif_discard_sub_blocks (gif_skip_bytes_internal ctx1 (unat size_b))
             else gif_skip_bytes_internal ctx1 (unat size_b))"
  by pat_completeness auto
termination
  by (relation "measure (\<lambda>ctx. gif_size ctx - current_pos ctx)")
     (auto simp: gif_read_byte_internal_def gif_skip_bytes_internal_def
                 gif_report_error_def split: if_splits)

declare gif_discard_sub_blocks.simps [simp del]

section \<open>Extensions\<close>

definition gif_read_graphic_control_ext :: "GIF_Context \<Rightarrow> GIF_Context" where
  "gif_read_graphic_control_ext ctx =
     (let ctx1 = gif_skip_bytes_internal ctx 1;
          (rdit, ctx2) = gif_read_byte_internal ctx1;
          ctx3 = ctx2\<lparr>disposal_method := drop_bit 2 rdit AND 3,
                      has_transparency := rdit AND 1,
                      frame_delay_ms := gif_read_u16_le (gif_data ctx2) (current_pos ctx2) * 10\<rparr>;
          ctx4 = gif_skip_bytes_internal ctx3 2;
          (ti, ctx5) = gif_read_byte_internal ctx4;
          ctx6 = ctx5\<lparr>transparent_index := ti\<rparr>
      in gif_skip_bytes_internal ctx6 1)"

text \<open>
  The application identifier and authentication code are read into two local arrays
  and never looked at.
\<close>

definition gif_read_application_ext :: "GIF_Context \<Rightarrow> GIF_Context" where
  "gif_read_application_ext ctx =
     (let (block_size, ctx1) = gif_read_byte_internal ctx
      in if block_size = 11
         then (let (n1, ctx2, app_id) = gif_read_bytes_internal ctx1 (\<lambda>_. 0) 0 8;
                   (n2, ctx3, app_auth_code) = gif_read_bytes_internal ctx2 (\<lambda>_. 0) 0 3;
                   (sub_block_size, ctx4) = gif_read_byte_internal ctx3
               in if sub_block_size \<noteq> 3
                  then gif_discard_sub_blocks
                         (gif_report_error ctx4 GIF_ERROR_BAD_FILE
                            ''Unexpected sub-block size in Application Extension.'')
                  else (let ctx5 = gif_skip_bytes_internal ctx4 1;
                            ctx6 = ctx5\<lparr>loop_count :=
                                     gif_read_u16_le (gif_data ctx5) (current_pos ctx5)\<rparr>;
                            ctx7 = gif_skip_bytes_internal ctx6 2
                        in gif_discard_sub_blocks ctx7))
         else gif_discard_sub_blocks ctx1)"

definition gif_read_ext :: "GIF_Context \<Rightarrow> GIF_Context" where
  "gif_read_ext ctx =
     (let (label, ctx1) = gif_read_byte_internal ctx
      in if label = 0xF9 then gif_read_graphic_control_ext ctx1
         else if label = 0xFF then gif_read_application_ext ctx1
         else gif_discard_sub_blocks
                (gif_report_error ctx1 GIF_ERROR_DECODE ''Unknown GIF extension encountered.''))"

section \<open>Sub-block assembler\<close>

text \<open>
  The refill loop of \<^verbatim>\<open>gif_get_more_lzw_data\<close>. Its local \<^verbatim>\<open>c\<close> is declared
  without an initial value and is read by the final \<^verbatim>\<open>return\<close> even when the loop
  body never ran, so the value \<open>c\<close> holds on entry is a parameter of the model.
  \<^verbatim>\<open>lzw_data_size\<close> is an \<^verbatim>\<open>int\<close>; the loop body runs only while input is left,
  and then it is not negative.
\<close>

function gif_get_more_lzw_data_loop :: "u8 \<Rightarrow> GIF_Context \<Rightarrow> bool \<times> GIF_Context" where
  "gif_get_more_lzw_data_loop c ctx =
     (if lzw_data_size ctx < int GIF_LZW_BASE_BUF_SIZE - int GIF_LZW_CHUNK_SIZE
         \<and> current_pos ctx < gif_size ctx
      then (case gif_read_byte_internal ctx of (c', ctx1) \<Rightarrow>
              if c' = 0
              then (let ctx2 = ctx1\<lparr>lzw_end_of_frame := 1\<rparr>
                    in (c' \<noteq> 0 \<or> lzw_end_of_frame ctx2 \<noteq> 0, ctx2))
              else (case gif_read_bytes_internal ctx1 (scratch_memory ctx1)
                           (scratch_lzw_buffer ctx1 + nat (lzw_data_size ctx1)) (unat c') of
                      (bytes_read, ctx2, buf) \<Rightarrow>
                        (let ctx3 = ctx2\<lparr>scratch_memory := buf,
                                          lzw_data_size := lzw_data_size ctx2 + int bytes_read\<rparr>
                         in if bytes_read < unat c'
                            then (False, gif_report_error ctx3 GIF_ERROR_EARLY_EOF
                                           ''Early EOF while reading LZW data block.'')
                            else gif_get_more_lzw_data_loop c' ctx3)))
      else (c \<noteq> 0 \<or> lzw_end_of_frame ctx \<noteq> 0, ctx))"
  by pat_completeness auto
termination
  by (relation "measure (\<lambda>(c, ctx). gif_size ctx - current_pos ctx)")
     (auto simp: gif_read_byte_internal_def gif_read_bytes_internal_def Let_def
           split: if_splits)

declare gif_get_more_lzw_data_loop.simps [simp del]

definition gif_get_more_lzw_data :: "u8 \<Rightarrow> GIF_Context \<Rightarrow> bool \<times> GIF_Context" where
  "gif_get_more_lzw_data c ctx =
     (let bytes_in_buffer = lzw_data_size ctx - lzw_read_offset ctx
      in if lzw_end_of_frame ctx \<noteq> 0 then (True, ctx)
         else (let ctx1 =
                     (if lzw_read_offset ctx > 0
                      then ctx\<lparr>scratch_memory :=
                                 (if bytes_in_buffer > 0
                                  then memcpy (scratch_memory ctx) (scratch_lzw_buffer ctx) (scratch_memory ctx)
                                         (scratch_lzw_buffer ctx + nat (lzw_read_offset ctx))
                                         (nat bytes_in_buffer)
                                  else scratch_memory ctx),
                               lzw_data_size := bytes_in_buffer,
                               lzw_read_offset := 0\<rparr>
                      else ctx)
               in gif_get_more_lzw_data_loop c ctx1))"

section \<open>Bit reader\<close>

text \<open>\<^verbatim>\<open>memcpy(&ulBits, p, sizeof(uint32_t))\<close> on a little-endian host.\<close>

definition read_u32_le :: "bytes \<Rightarrow> nat \<Rightarrow> u32" where
  "read_u32_le buf off =
     ucast (buf off) OR push_bit 8 (ucast (buf (off + 1)))
       OR push_bit 16 (ucast (buf (off + 2))) OR push_bit 24 (ucast (buf (off + 3)))"

text \<open>
  The locals of \<^verbatim>\<open>gif_decode_lzw\<close>. \<^verbatim>\<open>code\<close> and \<^verbatim>\<open>c\<close> are named
  \<open>lzw_code\<close> and \<open>lzw_c\<close>. The pointer \<^verbatim>\<open>p\<close> is only ever the buffer plus
  \<^verbatim>\<open>lzw_read_offset\<close> and is not kept. A C shift \<^verbatim>\<open>1 << n\<close> is \<open>push_bit n 1\<close>
  at the width of the variable assigned; C defines it for \<open>n \<le> 30\<close> only.
\<close>

record lzw_locals =
  lzw_code :: u16
  oldcode :: u16
  codesize :: u16
  nextcode :: u16
  nextlim :: u16
  clear_code :: u16
  eoi_code :: u16
  sMask :: u32
  lzw_c :: u8
  bitnum :: int
  ulBits :: u32
  current_pixel_idx :: int
  current_line_idx :: int
  interlaced_pass :: nat

definition GET_LZW_CODE :: "u8 \<Rightarrow> GIF_Context \<Rightarrow> lzw_locals \<Rightarrow> GIF_Context \<times> lzw_locals" where
  "GET_LZW_CODE c0 ctx L =
     (if bitnum L > 32 - uint (codesize L)
      then (let ctx1 = ctx\<lparr>lzw_read_offset := lzw_read_offset ctx + drop_bit 3 (bitnum L)\<rparr>;
                L1 = L\<lparr>bitnum := bitnum L AND 7\<rparr>;
                (ok, ctx2) = gif_get_more_lzw_data c0 ctx1
            in if \<not> ok then (ctx2, L1\<lparr>lzw_code := eoi_code L1\<rparr>)
               else (let L2 = L1\<lparr>ulBits := read_u32_le (scratch_memory ctx2)
                                               (scratch_lzw_buffer ctx2
                                                + nat (lzw_read_offset ctx2))\<rparr>
                     in (ctx2, L2\<lparr>lzw_code := ucast (drop_bit (nat (bitnum L2)) (ulBits L2)
                                                        AND sMask L2),
                                  bitnum := bitnum L2 + uint (codesize L2)\<rparr>)))
      else (ctx, L\<lparr>lzw_code := ucast (drop_bit (nat (bitnum L)) (ulBits L) AND sMask L),
                   bitnum := bitnum L + uint (codesize L)\<rparr>))"

section \<open>Dictionary (safe mode)\<close>

text \<open>
  The chain walk into \<^verbatim>\<open>temp_line_buf\<close>: \<open>temp\<close> is the content of
  \<^verbatim>\<open>temp_line_buf[temp_idx .. GIF_MAX_WIDTH)\<close>. \<open>lzw_table\<close> and \<open>lzw_pixels\<close> are
  the offsets of the two tables in the scratch store \<open>mem\<close>; \<^verbatim>\<open>lzw_table[code]\<close> is
  the \<^verbatim>\<open>uint16_t\<close> at byte offset \<open>2 * code\<close> of the link table, wherever that
  falls.
\<close>

fun lzw_walk :: "bytes \<Rightarrow> nat \<Rightarrow> nat \<Rightarrow> u16 \<Rightarrow> nat \<Rightarrow> u8 list \<Rightarrow> nat \<times> u8 list" where
  "lzw_walk mem lzw_table lzw_pixels current_lzw_code temp_idx temp =
     (if current_lzw_code \<noteq> 0xFFFF \<and> temp_idx > 0
      then lzw_walk mem lzw_table lzw_pixels
             (gif_read_u16_le mem (lzw_table + 2 * unat current_lzw_code)) (temp_idx - 1)
             (mem (lzw_pixels + unat current_lzw_code) # temp)
      else (temp_idx, temp))"

declare lzw_walk.simps [simp del]

text \<open>\<^verbatim>\<open>memcpy(dst + doff, temp_line_buf + temp_idx, GIF_MAX_WIDTH - temp_idx)\<close>.\<close>

definition memcpy_list :: "bytes \<Rightarrow> nat \<Rightarrow> u8 list \<Rightarrow> bytes" where
  "memcpy_list dst doff xs =
     (\<lambda>i. if doff \<le> i \<and> i < doff + length xs then xs ! (i - doff) else dst i)"

text \<open>
  The loop \<^verbatim>\<open>for (i = 0; i < clear_code; i++)\<close> before the label
  \<^verbatim>\<open>init_codetable_safe\<close>. One round stores to
  \<^verbatim>\<open>lzw_pixels[GIF_LZW_TABLE_ENTRIES + i]\<close>, then to \<^verbatim>\<open>lzw_pixels[i]\<close>, then to
  \<^verbatim>\<open>lzw_table[i]\<close>.
\<close>

definition lzw_init_root :: "GIF_Context \<Rightarrow> nat \<Rightarrow> bytes \<Rightarrow> bytes" where
  "lzw_init_root ctx i mem =
     (let mem1 = mem(scratch_lzw_pixels ctx + (GIF_LZW_TABLE_ENTRIES + i) := of_nat i);
          mem2 = mem1(scratch_lzw_pixels ctx + i := of_nat i)
      in write_u16_le mem2 (scratch_lzw_table ctx + 2 * i) 0xFFFF)"

definition lzw_init_roots :: "GIF_Context \<Rightarrow> u16 \<Rightarrow> GIF_Context" where
  "lzw_init_roots ctx clear =
     ctx\<lparr>scratch_memory :=
           fold (lzw_init_root ctx) [0..<unat clear] (scratch_memory ctx)\<rparr>"

text \<open>
  \<^verbatim>\<open>memset(&lzw_table[clear_code], 0xFF, sizeof(uint16_t) * (GIF_LZW_TABLE_ENTRIES - clear_code))\<close>.
  The count is computed at \<^verbatim>\<open>size_t\<close>: when \<^verbatim>\<open>clear_code\<close> is above the number
  of entries (a minimum code size of 13, 14 or 15) the difference is negative and the
  count is close to \<^verbatim>\<open>SIZE_MAX\<close>, so the \<^verbatim>\<open>memset\<close> runs over the address space
  and the call does not come back: \<open>None\<close>.
\<close>

definition lzw_memset_table :: "GIF_Context \<Rightarrow> u16 \<Rightarrow> GIF_Context option" where
  "lzw_memset_table ctx clear =
     (if unat clear \<le> GIF_LZW_TABLE_ENTRIES
      then Some (ctx\<lparr>scratch_memory :=
                       memset (scratch_memory ctx) (scratch_lzw_table ctx + 2 * unat clear)
                         0xFF (2 * (GIF_LZW_TABLE_ENTRIES - unat clear))\<rparr>)
      else None)"

section \<open>Interlace address mapper and compositor\<close>

definition interlaced_line_offset :: "nat \<Rightarrow> int" where
  "interlaced_line_offset p = [0, 4, 2, 1] ! p"

definition interlaced_line_stride :: "nat \<Rightarrow> int" where
  "interlaced_line_stride p = [8, 8, 4, 2] ! p"

text \<open>
  \<^verbatim>\<open>while (y_draw >= ctx->frame_height && interlaced_pass < 3)\<close>; the comparison
  is made at \<^verbatim>\<open>uint32_t\<close>. The result is the pass, the line index and \<^verbatim>\<open>y_draw\<close>.
\<close>

function interlace_next_pass :: "u32 \<Rightarrow> nat \<Rightarrow> int \<Rightarrow> int \<Rightarrow> nat \<times> int \<times> int" where
  "interlace_next_pass fh pass line_idx y_draw =
     (if (word_of_int y_draw :: u32) \<ge> fh \<and> pass < 3
      then interlace_next_pass fh (pass + 1) 0
             (interlaced_line_offset (pass + 1) + 0 * interlaced_line_stride (pass + 1))
      else (pass, line_idx, y_draw))"
  by pat_completeness auto
termination
  by (relation "measure (\<lambda>(fh, pass, line_idx, y_draw). 3 - pass)") auto

declare interlace_next_pass.simps [simp del]

definition active_palette :: "GIF_Context \<Rightarrow> bytes" where
  "active_palette ctx =
     (case active_palette_colors ctx of
        Global_Palette \<Rightarrow> global_palette_colors ctx
      | Local_Palette \<Rightarrow> local_palette_colors ctx)"

text \<open>
  \<^verbatim>\<open>dest_row_start - frame_buffer\<close>. The product
  \<^verbatim>\<open>(ctx->frame_y_off + y_draw) * ctx->canvas_width * 3\<close> is evaluated at
  \<^verbatim>\<open>uint32_t\<close> and wraps there; it is added to the pointer, and
  \<^verbatim>\<open>ctx->frame_x_off * 3\<close>, an \<^verbatim>\<open>int\<close>, is added to the pointer after it.
\<close>

definition dest_row_start :: "GIF_Context \<Rightarrow> int \<Rightarrow> nat" where
  "dest_row_start ctx y_draw =
     unat ((word_of_int (uint (frame_y_off ctx) + y_draw) :: u32) * canvas_width ctx * 3)
       + unat (frame_x_off ctx) * 3"

text \<open>One iteration of the pixel loop of a line flush.\<close>

definition put_pixel :: "GIF_Context \<Rightarrow> nat \<Rightarrow> nat \<Rightarrow> bytes \<Rightarrow> bytes" where
  "put_pixel ctx dest i frame_buffer =
     (let pixel_index = scratch_memory ctx (scratch_line_buffer ctx + i)
      in if has_transparency ctx \<noteq> 0 \<and> pixel_index = transparent_index ctx
         then (if disposal_method ctx = 2
               then memcpy frame_buffer (dest + i * 3) (active_palette ctx)
                      (unat (background_index ctx) * 3) 3
               else frame_buffer)
         else memcpy frame_buffer (dest + i * 3) (active_palette ctx) (unat pixel_index * 3) 3)"

definition draw_line :: "GIF_Context \<Rightarrow> int \<Rightarrow> bytes \<Rightarrow> bytes" where
  "draw_line ctx y_draw frame_buffer =
     fold (put_pixel ctx (dest_row_start ctx y_draw)) [0..<unat (frame_width ctx)] frame_buffer"

text \<open>
  The block \<^verbatim>\<open>if (current_pixel_idx >= ctx->frame_width) { ... }\<close>. \<open>Inl\<close> is the
  \<^verbatim>\<open>return GIF_ERROR_DECODE\<close> of the interlace check.
\<close>

definition flush_line ::
  "GIF_Context \<Rightarrow> lzw_locals \<Rightarrow> bytes \<Rightarrow> GIF_Context + lzw_locals \<times> bytes" where
  "flush_line ctx L frame_buffer =
     (if (word_of_int (current_pixel_idx L) :: u32) \<ge> frame_width ctx
      then (if ucGIFBits ctx AND 0x40 \<noteq> 0
            then (case interlace_next_pass (frame_height ctx) (interlaced_pass L)
                         (current_line_idx L)
                         (interlaced_line_offset (interlaced_pass L)
                          + current_line_idx L * interlaced_line_stride (interlaced_pass L)) of
                    (pass, line_idx, y_draw) \<Rightarrow>
                      if (word_of_int y_draw :: u32) \<ge> frame_height ctx
                      then Inl (gif_report_error ctx GIF_ERROR_DECODE
                                  ''Interlaced GIF decoding error: line out of bounds.'')
                      else Inr (L\<lparr>interlaced_pass := pass, current_pixel_idx := 0,
                                  current_line_idx := line_idx + 1\<rparr>,
                                draw_line ctx y_draw frame_buffer))
            else Inr (L\<lparr>current_pixel_idx := 0, current_line_idx := current_line_idx L + 1\<rparr>,
                      draw_line ctx (current_line_idx L) frame_buffer))
      else Inr (L, frame_buffer))"

section \<open>LZW decoder (safe mode)\<close>

text \<open>
  From the label \<^verbatim>\<open>init_codetable_safe\<close> to the head of the main loop: reset the
  code width, pull the first code and expand it to the start of the line buffer.
  \<open>Inl\<close> is the \<^verbatim>\<open>return GIF_ERROR_DECODE\<close>; \<open>None\<close> is that of the \<^verbatim>\<open>memset\<close>.
\<close>

definition lzw_first_code ::
  "u8 \<Rightarrow> GIF_Context \<Rightarrow> lzw_locals \<Rightarrow> (GIF_Context + GIF_Context \<times> lzw_locals) option" where
  "lzw_first_code c0 ctx L =
     (let cs = (ucast (lzw_code_start_size ctx) + 1 :: u16);
          L1 = L\<lparr>codesize := cs,
                 sMask := push_bit (unat cs) 1 - 1,
                 nextcode := eoi_code L + 1,
                 nextlim := push_bit (unat cs) 1,
                 bitnum := 0\<rparr>
      in case lzw_memset_table ctx (clear_code L1) of
           None \<Rightarrow> None
         | Some ctx1 \<Rightarrow>
             (let (ctx2, L2) = GET_LZW_CODE c0 ctx1 L1;
                  (ctx3, L3) = (if lzw_code L2 = clear_code L2 then GET_LZW_CODE c0 ctx2 L2
                                else (ctx2, L2))
              in if unat (lzw_code L3) \<ge> GIF_LZW_TABLE_ENTRIES
                 then Some (Inl (gif_report_error ctx3 GIF_ERROR_DECODE
                                   ''Invalid initial LZW code in Safe mode.''))
                 else (let L4 = L3\<lparr>oldcode := lzw_code L3, lzw_c := ucast (lzw_code L3)\<rparr>;
                           (temp_idx, temp) =
                             lzw_walk (scratch_memory ctx3) (scratch_lzw_table ctx3)
                               (scratch_lzw_pixels ctx3) (lzw_code L4) GIF_MAX_WIDTH [];
                           ctx4 = ctx3\<lparr>scratch_memory :=
                                         memcpy_list (scratch_memory ctx3)
                                           (scratch_line_buffer ctx3) temp\<rparr>
                       in Some (Inr (ctx4,
                                     L4\<lparr>current_pixel_idx :=
                                          current_pixel_idx L4
                                          + (int GIF_MAX_WIDTH - int temp_idx)\<rparr>)))))"

text \<open>
  The body of \<^verbatim>\<open>if (code != eoi_code) { ... }\<close> in the main loop, in its four
  parts. First the code is expanded behind the pixels already in the line buffer.
\<close>

definition lzw_append_code :: "GIF_Context \<Rightarrow> lzw_locals \<Rightarrow> GIF_Context \<times> lzw_locals" where
  "lzw_append_code ctx L =
     (let (temp_idx, temp) = lzw_walk (scratch_memory ctx) (scratch_lzw_table ctx)
                               (scratch_lzw_pixels ctx) (lzw_code L) GIF_MAX_WIDTH [];
          pixels_to_copy = int GIF_MAX_WIDTH - int temp_idx
      in (ctx\<lparr>scratch_memory :=
                 memcpy_list (scratch_memory ctx)
                   (scratch_line_buffer ctx + nat (current_pixel_idx L)) temp\<rparr>,
          L\<lparr>current_pixel_idx := current_pixel_idx L + pixels_to_copy\<rparr>))"

text \<open>
  Then a dictionary entry is added while the table has room:
  \<^verbatim>\<open>lzw_table[nextcode] = oldcode; lzw_pixels[nextcode] = c;
  lzw_pixels[GIF_LZW_TABLE_ENTRIES + nextcode] = c = lzw_pixels[code];\<close>
\<close>

definition lzw_add_entry :: "GIF_Context \<Rightarrow> lzw_locals \<Rightarrow> GIF_Context \<times> lzw_locals" where
  "lzw_add_entry ctx L =
     (if unat (nextcode L) < GIF_LZW_TABLE_ENTRIES
      then (let mem1 = write_u16_le (scratch_memory ctx)
                         (scratch_lzw_table ctx + 2 * unat (nextcode L)) (oldcode L);
                mem2 = mem1(scratch_lzw_pixels ctx + unat (nextcode L) := lzw_c L);
                c' = mem2 (scratch_lzw_pixels ctx + unat (lzw_code L))
            in (ctx\<lparr>scratch_memory :=
                       mem2(scratch_lzw_pixels ctx
                            + (GIF_LZW_TABLE_ENTRIES + unat (nextcode L)) := c')\<rparr>,
                L\<lparr>lzw_c := c'\<rparr>))
      else (ctx, L))"

text \<open>Then \<^verbatim>\<open>nextcode\<close> is counted up and the code width grows at the limit.\<close>

definition lzw_grow :: "lzw_locals \<Rightarrow> lzw_locals" where
  "lzw_grow L =
     (let L1 = L\<lparr>nextcode := nextcode L + 1\<rparr>
      in if nextcode L1 \<ge> nextlim L1 \<and> unat (codesize L1) < GIF_MAX_CODE_SIZE
         then (let nl = push_bit 1 (nextlim L1)
               in L1\<lparr>codesize := codesize L1 + 1, nextlim := nl,
                     sMask := word_of_int (uint nl - 1)\<rparr>)
         else L1)"

text \<open>These three parts, up to the test of the line buffer's fill.\<close>

definition lzw_expand :: "GIF_Context \<Rightarrow> lzw_locals \<Rightarrow> GIF_Context \<times> lzw_locals" where
  "lzw_expand ctx L =
     (let (ctx1, L1) = lzw_append_code ctx L;
          (ctx2, L2) = lzw_add_entry ctx1 L1
      in (ctx2, lzw_grow L2))"

text \<open>Last a line is flushed when the buffer holds one, and the code is remembered.\<close>

definition lzw_step ::
  "GIF_Context \<Rightarrow> lzw_locals \<Rightarrow> bytes \<Rightarrow> GIF_Context + GIF_Context \<times> lzw_locals \<times> bytes" where
  "lzw_step ctx L frame_buffer =
     (let (ctx2, L3) = lzw_expand ctx L
      in case flush_line ctx2 L3 frame_buffer of
           Inl ctx3 \<Rightarrow> Inl ctx3
         | Inr (L4, fb) \<Rightarrow> Inr (ctx2, L4\<lparr>oldcode := lzw_code L4\<rparr>, fb))"

text \<open>
  The main loop and the jump back to \<^verbatim>\<open>init_codetable_safe\<close> on a clear code.
  Nothing in the C loop bounds the number of rounds, so the model counts them: \<open>None\<close>
  means that the call gives no result, because the fuel given did not suffice or
  because the \<^verbatim>\<open>memset\<close> did not come back.
\<close>

fun lzw_decode_init ::
      "nat \<Rightarrow> u8 \<Rightarrow> GIF_Context \<Rightarrow> lzw_locals \<Rightarrow> bytes \<Rightarrow> (gif_error \<times> GIF_Context \<times> bytes) option"
  and lzw_decode_loop ::
      "nat \<Rightarrow> u8 \<Rightarrow> GIF_Context \<Rightarrow> lzw_locals \<Rightarrow> bytes \<Rightarrow> (gif_error \<times> GIF_Context \<times> bytes) option"
  where
  "lzw_decode_init 0 c0 ctx L frame_buffer = None"
| "lzw_decode_init (Suc n) c0 ctx L frame_buffer =
     (case lzw_first_code c0 ctx L of
        None \<Rightarrow> None
      | Some (Inl ctx1) \<Rightarrow> Some (GIF_ERROR_DECODE, ctx1, frame_buffer)
      | Some (Inr (ctx1, L1)) \<Rightarrow> lzw_decode_loop n c0 ctx1 L1 frame_buffer)"
| "lzw_decode_loop 0 c0 ctx L frame_buffer = None"
| "lzw_decode_loop (Suc n) c0 ctx L frame_buffer =
     (if lzw_code L \<noteq> eoi_code L
      then (case GET_LZW_CODE c0 ctx L of (ctx1, L1) \<Rightarrow>
              if lzw_code L1 = clear_code L1
              then lzw_decode_init n c0 ctx1 L1 frame_buffer
              else if lzw_code L1 \<noteq> eoi_code L1
                   then (case lzw_step ctx1 L1 frame_buffer of
                           Inl ctx2 \<Rightarrow> Some (GIF_ERROR_DECODE, ctx2, frame_buffer)
                         | Inr (ctx2, L2, fb) \<Rightarrow> lzw_decode_loop n c0 ctx2 L2 fb)
                   else lzw_decode_loop n c0 ctx1 L1 frame_buffer)
      else Some (GIF_SUCCESS, ctx, frame_buffer))"

text \<open>
  The head of \<^verbatim>\<open>gif_decode_lzw\<close> after the first refill: the bit window is
  loaded, the two special codes are set and the root entries are written. The result
  is the state in which the label \<^verbatim>\<open>init_codetable_safe\<close> is first reached.
\<close>

definition lzw_entry :: "GIF_Context \<Rightarrow> GIF_Context \<times> lzw_locals" where
  "lzw_entry ctx =
     (let clear = (push_bit (unat (lzw_code_start_size ctx)) 1 :: u16);
          L = \<lparr>lzw_code = 0, oldcode = 0, codesize = 0, nextcode = 0, nextlim = 0,
               clear_code = clear, eoi_code = clear + 1, sMask = 0, lzw_c = 0,
               bitnum = 0,
               ulBits = read_u32_le (scratch_memory ctx) (scratch_lzw_buffer ctx),
               current_pixel_idx = 0, current_line_idx = 0, interlaced_pass = 0\<rparr>
      in (lzw_init_roots ctx clear, L))"

definition gif_decode_lzw ::
  "nat \<Rightarrow> u8 \<Rightarrow> GIF_Context \<Rightarrow> bytes \<Rightarrow> (gif_error \<times> GIF_Context \<times> bytes) option" where
  "gif_decode_lzw fuel c0 ctx frame_buffer =
     (let ctx1 = ctx\<lparr>lzw_read_offset := 0, lzw_data_size := 0, lzw_end_of_frame := 0\<rparr>;
          (ok, ctx2) = gif_get_more_lzw_data c0 ctx1
      in if \<not> ok
         then Some (GIF_ERROR_EARLY_EOF,
                    gif_report_error ctx2 GIF_ERROR_EARLY_EOF
                      ''Failed to get initial LZW data for frame.'',
                    frame_buffer)
         else (let (ctx3, L) = lzw_entry ctx2
               in lzw_decode_init fuel c0 ctx3 L frame_buffer))"

section \<open>API\<close>

definition gif_rewind :: "GIF_Context \<Rightarrow> GIF_Context" where
  "gif_rewind ctx =
     ctx\<lparr>current_pos := anim_start_pos ctx, lzw_end_of_frame := 0,
         lzw_read_offset := 0, lzw_data_size := 0\<rparr>"

definition gif_set_error_callback :: "GIF_Context \<Rightarrow> bool \<Rightarrow> GIF_Context" where
  "gif_set_error_callback ctx callback = ctx\<lparr>error_callback := callback\<rparr>"

text \<open>A context whose bytes are all zero, with an empty callback log.\<close>

definition null_context :: GIF_Context where
  "null_context =
     \<lparr>gif_data = (\<lambda>_. 0), gif_size = 0, current_pos = 0,
      canvas_width = 0, canvas_height = 0, frame_width = 0, frame_height = 0,
      frame_x_off = 0, frame_y_off = 0, frame_delay_ms = 0, loop_count = 0,
      background_index = 0, transparent_index = 0, has_transparency = 0,
      disposal_method = 0, ucGIFBits = 0,
      global_palette_colors = (\<lambda>_. 0), local_palette_colors = (\<lambda>_. 0),
      active_palette_colors = Global_Palette,
      lzw_code_start_size = 0, lzw_end_of_frame = 0, lzw_read_offset = 0, lzw_data_size = 0,
      scratch_lzw_buffer = 0, scratch_lzw_table = 0,
      scratch_lzw_pixels = 0, scratch_line_buffer = 0,
      anim_start_pos = 0, file_buf = (\<lambda>_. 0),
      error_callback = False, callback_log = [], scratch_memory = (\<lambda>_. 0)\<rparr>"

text \<open>
  \<^verbatim>\<open>memset(ctx, 0, sizeof(GIF_Context))\<close>; the log of callback calls already made
  and the scratch memory are not part of the C structure and stay.
\<close>

definition zero_context :: "GIF_Context \<Rightarrow> GIF_Context" where
  "zero_context ctx = null_context\<lparr>callback_log := callback_log ctx, scratch_memory := scratch_memory ctx\<rparr>"

text \<open>
  \<open>gif_init ctx data size scratch_buffer scratch_buffer_size\<close>. The scratch region is
  cut into the bit-stream buffer, the link table (\<^verbatim>\<open>uint16_t\<close> cells), the pixel
  table and the line buffer, one behind the other.
\<close>

definition gif_init ::
  "GIF_Context \<Rightarrow> bytes \<Rightarrow> nat \<Rightarrow> bytes \<Rightarrow> nat \<Rightarrow> gif_error \<times> GIF_Context" where
  "gif_init ctx data size_d scratch_buffer scratch_buffer_size =
     (if size_d = 0
      then (GIF_ERROR_INVALID_PARAM,
            gif_report_error ctx GIF_ERROR_INVALID_PARAM ''Invalid parameters for gif_init.'')
      else if scratch_buffer_size < GIF_SCRATCH_BUFFER_REQUIRED_SIZE
      then (GIF_ERROR_BUFFER_TOO_SMALL,
            gif_report_error ctx GIF_ERROR_BUFFER_TOO_SMALL
              ''Scratch buffer too small. Required: %zu bytes.'')
      else
        (let ctx1 = (zero_context ctx)
               \<lparr>gif_data := data, gif_size := size_d, current_pos := 0, loop_count := - 1,
                scratch_memory := scratch_buffer,
                scratch_lzw_buffer := 0,
                scratch_lzw_table := GIF_LZW_BASE_BUF_SIZE,
                scratch_lzw_pixels := GIF_LZW_BASE_BUF_SIZE + GIF_LZW_TABLE_ENTRIES * 2,
                scratch_line_buffer := GIF_LZW_BASE_BUF_SIZE + GIF_LZW_TABLE_ENTRIES * 2
                                         + GIF_LZW_TABLE_ENTRIES * 2\<rparr>;
             (n, ctx2, fbuf) = gif_read_bytes_internal ctx1 (file_buf ctx1) 0 13;
             ctx3 = ctx2\<lparr>file_buf := fbuf\<rparr>
         in if n < 13
            then (GIF_ERROR_EARLY_EOF,
                  gif_report_error ctx3 GIF_ERROR_EARLY_EOF ''Early EOF while reading GIF header.'')
            else if map fbuf [0, 1, 2] \<noteq> [0x47, 0x49, 0x46]
                    \<or> (map fbuf [3, 4, 5] \<noteq> [0x38, 0x37, 0x61]
                        \<and> map fbuf [3, 4, 5] \<noteq> [0x38, 0x39, 0x61])
            then (GIF_ERROR_BAD_FILE,
                  gif_report_error ctx3 GIF_ERROR_BAD_FILE ''Invalid GIF signature.'')
            else
              (let ctx4 = ctx3\<lparr>canvas_width := ucast (gif_read_u16_le fbuf 6),
                               canvas_height := ucast (gif_read_u16_le fbuf 8)\<rparr>;
                   fdsz = fbuf 10;
                   gct_size = (2::nat) ^ (unat (fdsz AND 0x07) + 1);
                   finish = (\<lambda>c. (GIF_SUCCESS,
                                   c\<lparr>background_index := fbuf 11,
                                     active_palette_colors := Global_Palette,
                                     anim_start_pos := current_pos c\<rparr>))
               in if fdsz AND 0x80 \<noteq> 0
                  then (if gct_size > GIF_MAX_COLORS
                        then (GIF_ERROR_UNSUPPORTED_COLOR_DEPTH,
                              gif_report_error ctx4 GIF_ERROR_UNSUPPORTED_COLOR_DEPTH
                                ''Global Color Table size exceeds GIF_MAX_COLORS.'')
                        else (case gif_read_bytes_internal ctx4 (global_palette_colors ctx4) 0
                                     (gct_size * 3) of
                                (m, ctx5, pal) \<Rightarrow>
                                  if m < gct_size * 3
                                  then (GIF_ERROR_EARLY_EOF,
                                        gif_report_error (ctx5\<lparr>global_palette_colors := pal\<rparr>)
                                          GIF_ERROR_EARLY_EOF
                                          ''Early EOF while reading Global Color Table.'')
                                  else finish (ctx5\<lparr>global_palette_colors := pal\<rparr>)))
                  else finish ctx4)))"

text \<open>
  The separator loop of \<^verbatim>\<open>gif_next_frame\<close>. A trailer with loops left rewinds and
  continues, so the loop has no bound of its own and the model counts its rounds
  (\<open>None\<close>: the fuel did not suffice). \<open>Some (Some r, ctx)\<close> is \<^verbatim>\<open>return r\<close> from
  inside the loop; \<open>Some (None, ctx)\<close> is leaving the loop, by \<^verbatim>\<open>break\<close> or because
  the input is used up. \<^verbatim>\<open>loop_count\<close> is an \<^verbatim>\<open>int16_t\<close> and compared as such.
\<close>

fun gif_next_frame_scan :: "nat \<Rightarrow> GIF_Context \<Rightarrow> (int option \<times> GIF_Context) option" where
  "gif_next_frame_scan 0 ctx = None"
| "gif_next_frame_scan (Suc n) ctx =
     (if current_pos ctx < gif_size ctx
      then (case gif_read_byte_internal ctx of (separator, ctx1) \<Rightarrow>
              if separator = 0x3B
              then (if loop_count ctx1 = - 1 \<or> sint (loop_count ctx1) > 0
                    then gif_next_frame_scan n
                           (gif_rewind (if sint (loop_count ctx1) > 0
                                        then ctx1\<lparr>loop_count := loop_count ctx1 - 1\<rparr>
                                        else ctx1))
                    else Some (Some 0, ctx1))
              else if separator = 0x21 then gif_next_frame_scan n (gif_read_ext ctx1)
              else if separator = 0x2C then Some (None, ctx1)
              else Some (Some (- 1),
                         gif_report_error ctx1 GIF_ERROR_BAD_FILE
                           ''Unexpected byte in GIF stream.''))
      else Some (None, ctx))"

text \<open>
  The end of \<^verbatim>\<open>gif_next_frame\<close>: the minimum code size, the LZW data and the
  result. The last component of the result is \<^verbatim>\<open>*delay_ms\<close>, which is only
  written when a frame is returned.
\<close>

definition gif_next_frame_lzw ::
  "nat \<Rightarrow> u8 \<Rightarrow> GIF_Context \<Rightarrow> bytes \<Rightarrow> int \<Rightarrow> (int \<times> GIF_Context \<times> bytes \<times> int) option" where
  "gif_next_frame_lzw fuel c0 ctx frame_buffer delay_ms =
     (let (s, ctx1) = gif_read_byte_internal ctx;
          ctx2 = ctx1\<lparr>lzw_code_start_size := s\<rparr>
      in case gif_decode_lzw fuel c0 ctx2 frame_buffer of
           None \<Rightarrow> None
         | Some (decode_result, ctx3, fb) \<Rightarrow>
             if decode_result \<noteq> GIF_SUCCESS
             then Some (- 1,
                        gif_report_error ctx3 decode_result ''LZW decoding failed for frame.'',
                        fb, delay_ms)
             else Some (1, ctx3, fb, uint (frame_delay_ms ctx3)))"

text \<open>
  \<^verbatim>\<open>gif_next_frame\<close> after the separator loop: image descriptor and local palette.
\<close>

definition gif_next_frame_image ::
  "nat \<Rightarrow> u8 \<Rightarrow> GIF_Context \<Rightarrow> bytes \<Rightarrow> int \<Rightarrow> (int \<times> GIF_Context \<times> bytes \<times> int) option" where
  "gif_next_frame_image fuel c0 ctx frame_buffer delay_ms =
     (if current_pos ctx \<ge> gif_size ctx then Some (0, ctx, frame_buffer, delay_ms)
      else
        (let ctx1 = gif_skip_bytes_internal
                      (ctx\<lparr>frame_x_off := gif_read_u16_le (gif_data ctx) (current_pos ctx)\<rparr>) 2;
             ctx2 = gif_skip_bytes_internal
                      (ctx1\<lparr>frame_y_off := gif_read_u16_le (gif_data ctx1) (current_pos ctx1)\<rparr>) 2;
             ctx3 = gif_skip_bytes_internal
                      (ctx2\<lparr>frame_width :=
                               ucast (gif_read_u16_le (gif_data ctx2) (current_pos ctx2))\<rparr>) 2;
             ctx4 = gif_skip_bytes_internal
                      (ctx3\<lparr>frame_height :=
                               ucast (gif_read_u16_le (gif_data ctx3) (current_pos ctx3))\<rparr>) 2
         in if frame_width ctx4 = 0 \<or> frame_height ctx4 = 0
            then Some (- 1,
                       gif_report_error ctx4 GIF_ERROR_INVALID_FRAME_DIMENSIONS
                         ''Frame has zero width or height.'',
                       frame_buffer, delay_ms)
            else if ucast (frame_x_off ctx4) + frame_width ctx4 > canvas_width ctx4
                    \<or> ucast (frame_y_off ctx4) + frame_height ctx4 > canvas_height ctx4
            then Some (- 1,
                       gif_report_error ctx4 GIF_ERROR_INVALID_FRAME_DIMENSIONS
                         ''Frame extends beyond canvas boundaries.'',
                       frame_buffer, delay_ms)
            else
              (let (fisrz, ctx5) = gif_read_byte_internal ctx4;
                   ctx6 = ctx5\<lparr>ucGIFBits := fisrz\<rparr>;
                   lct_size = (2::nat) ^ (unat (fisrz AND 0x07) + 1)
               in if fisrz AND 0x80 \<noteq> 0
                  then (if lct_size > GIF_MAX_COLORS
                        then Some (- 1,
                                   gif_report_error ctx6 GIF_ERROR_UNSUPPORTED_COLOR_DEPTH
                                     ''Local Color Table size exceeds GIF_MAX_COLORS.'',
                                   frame_buffer, delay_ms)
                        else (case gif_read_bytes_internal ctx6 (local_palette_colors ctx6) 0
                                     (lct_size * 3) of
                                (m, ctx7, pal) \<Rightarrow>
                                  if m < lct_size * 3
                                  then Some (- 1,
                                             gif_report_error
                                               (ctx7\<lparr>local_palette_colors := pal\<rparr>)
                                               GIF_ERROR_EARLY_EOF
                                               ''Early EOF while reading Local Color Table.'',
                                             frame_buffer, delay_ms)
                                  else gif_next_frame_lzw fuel c0
                                         (ctx7\<lparr>local_palette_colors := pal,
                                               active_palette_colors := Local_Palette\<rparr>)
                                         frame_buffer delay_ms))
                  else gif_next_frame_lzw fuel c0
                         (ctx6\<lparr>active_palette_colors := Global_Palette\<rparr>)
                         frame_buffer delay_ms)))"

text \<open>
  \<open>gif_next_frame fuel c0 ctx frame_buffer delay_ms\<close>: the result is the return value,
  the context, the frame buffer and \<^verbatim>\<open>*delay_ms\<close>, or \<open>None\<close> when the call gives
  no result. \<open>fuel\<close> bounds each of the two unbounded loops; \<open>c0\<close> is the uninitialised
  local of the refill.
  \<open>gif_next_frame_restart\<close> is the block that runs when the cursor is at the end of the
  input on entry; its \<open>None\<close> is the \<^verbatim>\<open>return 0\<close> there.
\<close>

definition gif_next_frame_restart :: "GIF_Context \<Rightarrow> GIF_Context option" where
  "gif_next_frame_restart ctx =
     (if current_pos ctx \<ge> gif_size ctx
      then (if loop_count ctx = - 1 \<or> sint (loop_count ctx) > 0
            then Some (gif_rewind (if sint (loop_count ctx) > 0
                                   then ctx\<lparr>loop_count := loop_count ctx - 1\<rparr>
                                   else ctx))
            else None)
      else Some ctx)"

definition gif_next_frame ::
  "nat \<Rightarrow> u8 \<Rightarrow> GIF_Context \<Rightarrow> bytes \<Rightarrow> int \<Rightarrow> (int \<times> GIF_Context \<times> bytes \<times> int) option" where
  "gif_next_frame fuel c0 ctx frame_buffer delay_ms =
     (case gif_next_frame_restart ctx of
        None \<Rightarrow> Some (0, ctx, frame_buffer, delay_ms)
      | Some ctx0 \<Rightarrow>
          (case gif_next_frame_scan fuel ctx0 of
             None \<Rightarrow> None
           | Some (Some r, ctx1) \<Rightarrow> Some (r, ctx1, frame_buffer, delay_ms)
           | Some (None, ctx1) \<Rightarrow> gif_next_frame_image fuel c0 ctx1 frame_buffer delay_ms))"

text \<open>
  A caller's loop: \<open>gif_calls k\<close> calls \<^verbatim>\<open>gif_next_frame\<close> \<open>k\<close> times on the same
  context, frame buffer and delay variable, and lists the return value and the value
  of \<^verbatim>\<open>*delay_ms\<close> after each call.
\<close>

fun gif_calls ::
  "nat \<Rightarrow> nat \<Rightarrow> u8 \<Rightarrow> GIF_Context \<Rightarrow> bytes \<Rightarrow> int
     \<Rightarrow> ((int \<times> int) list \<times> GIF_Context \<times> bytes) option" where
  "gif_calls 0 fuel c0 ctx frame_buffer delay_ms = Some ([], ctx, frame_buffer)"
| "gif_calls (Suc k) fuel c0 ctx frame_buffer delay_ms =
     (case gif_next_frame fuel c0 ctx frame_buffer delay_ms of
        None \<Rightarrow> None
      | Some (r, ctx1, fb, d) \<Rightarrow>
          (case gif_calls k fuel c0 ctx1 fb d of
             None \<Rightarrow> None
           | Some (rs, ctx2, fb2) \<Rightarrow> Some ((r, d) # rs, ctx2, fb2)))"

section \<open>Invariants\<close>

text \<open>The cursor and the rewind position lie within the input.\<close>

definition cursor_ok :: "GIF_Context \<Rightarrow> bool" where
  "cursor_ok ctx \<longleftrightarrow> current_pos ctx \<le> gif_size ctx \<and> anim_start_pos ctx \<le> gif_size ctx"

text \<open>
  What every step of decoding a frame leaves alone: the input, the rewind position,
  the graphic-control state and the loop counter; and it keeps the cursor within the
  input.
\<close>

definition kept :: "GIF_Context \<Rightarrow> GIF_Context \<Rightarrow> bool" where
  "kept a b \<longleftrightarrow>
     gif_size b = gif_size a \<and> gif_data b = gif_data a
     \<and> anim_start_pos b = anim_start_pos a
     \<and> disposal_method b = disposal_method a
     \<and> has_transparency b = has_transparency a
     \<and> transparent_index b = transparent_index a
     \<and> frame_delay_ms b = frame_delay_ms a
     \<and> loop_count b = loop_count a
     \<and> error_callback b = error_callback a
     \<and> (cursor_ok a \<longrightarrow> cursor_ok b)"

text \<open>
  The canvas is the caller's frame buffer: rows of \<^verbatim>\<open>canvas_width\<close> pixels of three
  bytes. \<open>canvas_offset ctx row col\<close> is the offset in it of the pixel at row \<open>row\<close> and
  column \<open>col\<close> of the frame, which is canvas row \<^verbatim>\<open>frame_y_off\<close> + \<open>row\<close> and canvas
  column \<^verbatim>\<open>frame_x_off\<close> + \<open>col\<close>.
\<close>

definition canvas_offset :: "GIF_Context \<Rightarrow> nat \<Rightarrow> nat \<Rightarrow> nat" where
  "canvas_offset ctx row col =
     ((unat (frame_y_off ctx) + row) * unat (canvas_width ctx) + unat (frame_x_off ctx) + col) * 3"

text \<open>
  \<open>row_written ctx row fb fb'\<close>: the canvas \<open>fb'\<close> is the canvas \<open>fb\<close> with the line buffer
  of \<open>ctx\<close> written to row \<open>row\<close> of the frame. Each of the \<^verbatim>\<open>frame_width\<close> pixels of
  that row holds the palette colour of its index (a transparent index: the background
  colour under disposal method 2, the old content otherwise), and every byte outside
  the row is as it was.
\<close>

definition row_written :: "GIF_Context \<Rightarrow> nat \<Rightarrow> bytes \<Rightarrow> bytes \<Rightarrow> bool" where
  "row_written ctx row fb fb' \<longleftrightarrow>
     (\<forall>col < unat (frame_width ctx). \<forall>k < 3.
        fb' (canvas_offset ctx row col + k) =
          (if has_transparency ctx \<noteq> 0
              \<and> scratch_memory ctx (scratch_line_buffer ctx + col) = transparent_index ctx
           then (if disposal_method ctx = 2
                 then active_palette ctx (unat (background_index ctx) * 3 + k)
                 else fb (canvas_offset ctx row col + k))
           else active_palette ctx
                  (unat (scratch_memory ctx (scratch_line_buffer ctx + col)) * 3 + k)))
     \<and> (\<forall>a. a < canvas_offset ctx row 0
              \<or> canvas_offset ctx row (unat (frame_width ctx)) \<le> a \<longrightarrow> fb' a = fb a)"

text \<open>
  \<open>decoder_at c0 ctxS fbS ctx L fb\<close>: the call of \<^verbatim>\<open>gif_decode_lzw\<close> on the context
  \<open>ctxS\<close> and the frame buffer \<open>fbS\<close> comes to the head of its main loop with the context
  \<open>ctx\<close>, the locals \<open>L\<close> and the frame buffer \<open>fb\<close>: after the first code, after a round
  for a data code, and after a round for a clear code.
\<close>

inductive decoder_at ::
  "u8 \<Rightarrow> GIF_Context \<Rightarrow> bytes \<Rightarrow> GIF_Context \<Rightarrow> lzw_locals \<Rightarrow> bytes \<Rightarrow> bool"
  for c0 :: u8 and ctxS :: GIF_Context and fbS :: bytes where
  first: "gif_get_more_lzw_data c0
            (ctxS\<lparr>lzw_read_offset := 0, lzw_data_size := 0, lzw_end_of_frame := 0\<rparr>)
            = (True, ctx2)
          \<Longrightarrow> lzw_entry ctx2 = (ctx3, L3)
          \<Longrightarrow> lzw_first_code c0 ctx3 L3 = Some (Inr (ctx, L))
          \<Longrightarrow> decoder_at c0 ctxS fbS ctx L fbS"
| code: "decoder_at c0 ctxS fbS ctx L fb
          \<Longrightarrow> lzw_code L \<noteq> eoi_code L
          \<Longrightarrow> GET_LZW_CODE c0 ctx L = (ctx1, L1)
          \<Longrightarrow> lzw_code L1 \<noteq> clear_code L1
          \<Longrightarrow> lzw_code L1 \<noteq> eoi_code L1
          \<Longrightarrow> lzw_step ctx1 L1 fb = Inr (ctx2, L2, fb2)
          \<Longrightarrow> decoder_at c0 ctxS fbS ctx2 L2 fb2"
| clear: "decoder_at c0 ctxS fbS ctx L fb
          \<Longrightarrow> lzw_code L \<noteq> eoi_code L
          \<Longrightarrow> GET_LZW_CODE c0 ctx L = (ctx1, L1)
          \<Longrightarrow> lzw_code L1 = clear_code L1
          \<Longrightarrow> lzw_first_code c0 ctx1 L1 = Some (Inr (ctx2, L2))
          \<Longrightarrow> decoder_at c0 ctxS fbS ctx2 L2 fb"

text \<open>
  The contexts a caller can hold: one that \<^verbatim>\<open>gif_init\<close> accepted, and whatever the
  other API calls make of it.
\<close>

inductive reachable :: "GIF_Context \<Rightarrow> bool" where
  init: "gif_init ctx0 data size_d scratch_buffer scratch_buffer_size = (GIF_SUCCESS, ctx)
           \<Longrightarrow> reachable ctx"
| rewind: "reachable ctx \<Longrightarrow> reachable (gif_rewind ctx)"
| callback: "reachable ctx \<Longrightarrow> reachable (gif_set_error_callback ctx cb)"
| next_frame: "reachable ctx
           \<Longrightarrow> gif_next_frame fuel c0 ctx frame_buffer delay_ms = Some (r, ctx', fb', delay_ms')
           \<Longrightarrow> reachable ctx'"

section \<open>Test inputs\<close>

text \<open>
  Test inputs are byte lists laid out at the start of a store; the memory behind
  the input reads as zero there.
\<close>

definition bytes_of :: "u8 list \<Rightarrow> bytes" where
  "bytes_of xs = (\<lambda>i. if i < length xs then xs ! i else 0)"

text \<open>
  \<open>open_gif g\<close> is the context after \<^verbatim>\<open>gif_init\<close> on the file \<open>g\<close> with a zeroed
  scratch region of the required size.
\<close>

definition open_gif :: "u8 list \<Rightarrow> GIF_Context" where
  "open_gif g =
     snd (gif_init null_context (bytes_of g) (length g) (\<lambda>_. 0)
            GIF_SCRATCH_BUFFER_REQUIRED_SIZE)"

text \<open>
  The minimal static GIF: GIF89a, 1 by 1, global palette black and white, one image
  with minimum code size 2 whose LZW data are the codes clear, 1, end.
\<close>

definition minimal_gif :: "u8 list" where
  "minimal_gif =
     [0x47, 0x49, 0x46, 0x38, 0x39, 0x61, 1, 0, 1, 0, 0x80, 0, 0,
      0, 0, 0, 0xFF, 0xFF, 0xFF,
      0x2C, 0, 0, 0, 0, 1, 0, 1, 0, 0, 2, 2, 0x4C, 0x01, 0,
      0x3B]"

text \<open>
  Header and logical screen descriptor of a \<open>w\<close> by \<open>h\<close> GIF89a with background index
  \<open>bg\<close> and a global palette of four colours.
\<close>

definition gif_header :: "u8 \<Rightarrow> u8 \<Rightarrow> u8 \<Rightarrow> u8 list" where
  "gif_header w h bg =
     [0x47, 0x49, 0x46, 0x38, 0x39, 0x61, w, 0, h, 0, 0x81, bg, 0,
      0x0A, 0x14, 0x1E, 0xFF, 0xFF, 0xFF, 0x11, 0x22, 0x33, 0x44, 0x55, 0x66]"

text \<open>
  An image descriptor at the origin, not interlaced, no local palette, minimum code
  size 2, with the LZW bytes \<open>dat\<close> in one sub-block and the block terminator.
\<close>

definition image_block :: "u8 \<Rightarrow> u8 \<Rightarrow> u8 list \<Rightarrow> u8 list" where
  "image_block w h dat =
     [0x2C, 0, 0, 0, 0, w, 0, h, 0, 0, 2, of_nat (length dat)] @ dat @ [0]"

text \<open>
  Two frames of 2 by 1 pixels with the indices 0, 1 (LZW codes clear, 0, 1, end). A
  graphic-control extension with disposal method 2, transparency on and transparent
  index 0 stands before the first image only. The background index is 1.
\<close>

definition two_frames_gif :: "u8 list" where
  "two_frames_gif =
     gif_header 2 1 1 @ [0x21, 0xF9, 4, 9, 0, 0, 0, 0] @ image_block 2 1 [0x44, 0x0A]
       @ image_block 2 1 [0x44, 0x0A] @ [0x3B]"

text \<open>
  One frame of 2 by 1 pixels behind a NETSCAPE2.0 application extension whose stored
  loop count is \<open>k\<close>.
\<close>

definition loop_gif :: "u8 \<Rightarrow> u8 list" where
  "loop_gif k =
     gif_header 2 1 1
       @ [0x21, 0xFF, 0x0B, 0x4E, 0x45, 0x54, 0x53, 0x43, 0x41, 0x50, 0x45, 0x32, 0x2E, 0x30,
          3, 1, k, 0, 0]
       @ image_block 2 1 [0x44, 0x0A] @ [0x3B]"

text \<open>
  A frame of 2 by 2 pixels whose LZW data are the codes clear, 0, end: the stream
  ends after one pixel of four.
\<close>

definition short_lzw_gif :: "u8 list" where
  "short_lzw_gif = gif_header 2 2 0 @ image_block 2 2 [0x44, 0x01] @ [0x3B]"

text \<open>
  The same frame cut off inside its first sub-block: the length byte announces 5
  bytes and the input ends after 2.
\<close>

definition truncated_gif :: "u8 list" where
  "truncated_gif =
     gif_header 2 2 0 @ [0x2C, 0, 0, 0, 0, 2, 0, 2, 0, 0, 2, 5, 0x44, 0x01]"

text \<open>
  A frame of 2 by 1 pixels whose LZW data are the codes clear, 0, 7, end. When 7 is
  pulled the next free code is 6, so 7 is above it and its entry was never set.
\<close>

definition bad_code_gif :: "u8 list" where
  "bad_code_gif = gif_header 2 1 0 @ image_block 2 1 [0xC4, 0x0B] @ [0x3B]"

text \<open>
  A frame of 2 by 3 pixels with the indices 0 0 / 1 0 / 0 1, as an LZW encoder writes
  it: the codes clear, 0, 0, 1 at three bits and 6, 1, end at four bits, where code 6
  stands for the pixels 0 0 that end the second row and begin the third.
\<close>

definition straddle_gif :: "u8 list" where
  "straddle_gif = gif_header 2 3 0 @ image_block 2 3 [0x04, 0x62, 0x51] @ [0x3B]"

text \<open>
  An interlaced image descriptor at the origin, no local palette, minimum code size
  2, with the LZW bytes \<open>dat\<close> in one sub-block and the block terminator.
\<close>

definition interlaced_block :: "u8 \<Rightarrow> u8 \<Rightarrow> u8 list \<Rightarrow> u8 list" where
  "interlaced_block w h dat =
     [0x2C, 0, 0, 0, 0, w, 0, h, 0, 0x40, 2, of_nat (length dat)] @ dat @ [0]"

text \<open>
  An interlaced frame of 2 by 3 pixels whose LZW data are the codes clear, 0, 1, 2 at
  three bits and 3, 1, 0, end at four bits: three lines with the indices 0 1, 2 3
  and 1 0, in the order the stream has them.
\<close>

definition interlaced_gif :: "u8 list" where
  "interlaced_gif =
     gif_header 2 3 0 @ interlaced_block 2 3 [0x44, 0x34, 0x01, 0x05] @ [0x3B]"

text \<open>
  An interlaced frame of 1 by 1 pixel whose LZW data are the codes clear, 0, 1, 0:
  the second code completes the only line of the frame and the third completes one
  line more.
\<close>

definition overrun_gif :: "u8 list" where
  "overrun_gif = gif_header 1 1 0 @ interlaced_block 1 1 [0x44, 0x00] @ [0x3B]"

text \<open>
  The context with which \<^verbatim>\<open>gif_next_frame\<close> calls \<^verbatim>\<open>gif_decode_lzw\<close> on that
  file: the image descriptor and the minimum code size are read, the cursor stands on
  the first sub-block.
\<close>

definition overrun_entry :: GIF_Context where
  "overrun_entry =
     (open_gif overrun_gif)\<lparr>current_pos := 36, frame_width := 1, frame_height := 1,
                             ucGIFBits := 0x40, lzw_code_start_size := 2\<rparr>"

text \<open>
  \<open>after_calls k g\<close> is the context after \<open>k\<close> calls of \<^verbatim>\<open>gif_next_frame\<close> on the
  file \<open>g\<close>, with fuel 10 and a frame buffer of zeros.
\<close>

definition after_calls :: "nat \<Rightarrow> u8 list \<Rightarrow> GIF_Context" where
  "after_calls k g =
     (case gif_calls k 10 0 (open_gif g) (\<lambda>_. 0) 0 of
        None \<Rightarrow> null_context
      | Some (rs, ctx, fb) \<Rightarrow> ctx)"

text \<open>
  Locals of the decoder at a line flush of a frame two pixels wide: the line buffer
  holds two pixels, and the decoder is at line \<open>i\<close> of pass \<open>p\<close>. Minimum code size 2,
  so CLEAR is 4 and END is 5; the bit window holds the END code next.
\<close>

definition line_locals :: "nat \<Rightarrow> int \<Rightarrow> lzw_locals" where
  "line_locals p i =
     \<lparr>lzw_code = 0, oldcode = 0, codesize = 3, nextcode = 6, nextlim = 8,
      clear_code = 4, eoi_code = 5, sMask = 7, lzw_c = 0, bitnum = 0, ulBits = 5,
      current_pixel_idx = 2, current_line_idx = i, interlaced_pass = p\<rparr>"

text \<open>
  An interlaced frame of 2 by 3 pixels on a canvas of the same size, with the palette
  of \<open>gif_header\<close> and a line buffer that holds the indices 1 and 2.
\<close>

definition interlaced_ctx :: GIF_Context where
  "interlaced_ctx =
     null_context\<lparr>canvas_width := 2, canvas_height := 3, frame_width := 2,
                  frame_height := 3, ucGIFBits := 0x40,
                  global_palette_colors := bytes_of [0x0A, 0x14, 0x1E, 0xFF, 0xFF, 0xFF,
                                                     0x11, 0x22, 0x33, 0x44, 0x55, 0x66],
                  scratch_memory := bytes_of [1, 2]\<rparr>"

text \<open>
  A context ready to composite one line of two pixels with the indices 0 and 2:
  transparency is on with transparent index 0, the disposal method is \<open>m\<close>, the
  background index is 1 and the palette is that of \<open>gif_header\<close>.
\<close>

definition compositor_ctx :: "u8 \<Rightarrow> GIF_Context" where
  "compositor_ctx m =
     null_context\<lparr>canvas_width := 2, canvas_height := 1, frame_width := 2,
                  frame_height := 1, background_index := 1, transparent_index := 0,
                  has_transparency := 1, disposal_method := m,
                  global_palette_colors := bytes_of [0x0A, 0x14, 0x1E, 0xFF, 0xFF, 0xFF,
                                                     0x11, 0x22, 0x33, 0x44, 0x55, 0x66],
                  scratch_memory := bytes_of [0, 2]\<rparr>"

section \<open>Basic facts\<close>

lemma report_error_fields [simp]:
  "gif_data (gif_report_error ctx e m) = gif_data ctx"
  "gif_size (gif_report_error ctx e m) = gif_size ctx"
  "current_pos (gif_report_error ctx e m) = current_pos ctx"
  "anim_start_pos (gif_report_error ctx e m) = anim_start_pos ctx"
  "disposal_method (gif_report_error ctx e m) = disposal_method ctx"
  "has_transparency (gif_report_error ctx e m) = has_transparency ctx"
  "transparent_index (gif_report_error ctx e m) = transparent_index ctx"
  "loop_count (gif_report_error ctx e m) = loop_count ctx"
  "frame_delay_ms (gif_report_error ctx e m) = frame_delay_ms ctx"
  "error_callback (gif_report_error ctx e m) = error_callback ctx"
  by (simp_all add: gif_report_error_def)

lemma read_byte_keeps [simp]:
  "gif_size (snd (gif_read_byte_internal ctx)) = gif_size ctx"
  "gif_data (snd (gif_read_byte_internal ctx)) = gif_data ctx"
  "anim_start_pos (snd (gif_read_byte_internal ctx)) = anim_start_pos ctx"
  "disposal_method (snd (gif_read_byte_internal ctx)) = disposal_method ctx"
  "has_transparency (snd (gif_read_byte_internal ctx)) = has_transparency ctx"
  "transparent_index (snd (gif_read_byte_internal ctx)) = transparent_index ctx"
  "frame_delay_ms (snd (gif_read_byte_internal ctx)) = frame_delay_ms ctx"
  "loop_count (snd (gif_read_byte_internal ctx)) = loop_count ctx"
  "error_callback (snd (gif_read_byte_internal ctx)) = error_callback ctx"
  by (simp_all add: gif_read_byte_internal_def)

lemma read_byte_cursor [simp]:
  "cursor_ok ctx \<Longrightarrow> cursor_ok (snd (gif_read_byte_internal ctx))"
  by (simp add: gif_read_byte_internal_def cursor_ok_def)

lemma skip_keeps [simp]:
  "gif_size (gif_skip_bytes_internal ctx n) = gif_size ctx"
  "gif_data (gif_skip_bytes_internal ctx n) = gif_data ctx"
  "anim_start_pos (gif_skip_bytes_internal ctx n) = anim_start_pos ctx"
  "disposal_method (gif_skip_bytes_internal ctx n) = disposal_method ctx"
  "has_transparency (gif_skip_bytes_internal ctx n) = has_transparency ctx"
  "transparent_index (gif_skip_bytes_internal ctx n) = transparent_index ctx"
  "frame_delay_ms (gif_skip_bytes_internal ctx n) = frame_delay_ms ctx"
  "loop_count (gif_skip_bytes_internal ctx n) = loop_count ctx"
  "error_callback (gif_skip_bytes_internal ctx n) = error_callback ctx"
  by (simp_all add: gif_skip_bytes_internal_def)

lemma skip_cursor [simp]:
  "cursor_ok ctx \<Longrightarrow> cursor_ok (gif_skip_bytes_internal ctx n)"
  by (simp add: gif_skip_bytes_internal_def cursor_ok_def)

lemma read_bytes_keeps [simp]:
  "gif_size (fst (snd (gif_read_bytes_internal ctx b off n))) = gif_size ctx"
  "gif_data (fst (snd (gif_read_bytes_internal ctx b off n))) = gif_data ctx"
  "anim_start_pos (fst (snd (gif_read_bytes_internal ctx b off n))) = anim_start_pos ctx"
  "disposal_method (fst (snd (gif_read_bytes_internal ctx b off n))) = disposal_method ctx"
  "has_transparency (fst (snd (gif_read_bytes_internal ctx b off n))) = has_transparency ctx"
  "transparent_index (fst (snd (gif_read_bytes_internal ctx b off n))) = transparent_index ctx"
  "frame_delay_ms (fst (snd (gif_read_bytes_internal ctx b off n))) = frame_delay_ms ctx"
  "loop_count (fst (snd (gif_read_bytes_internal ctx b off n))) = loop_count ctx"
  "error_callback (fst (snd (gif_read_bytes_internal ctx b off n))) = error_callback ctx"
  by (simp_all add: gif_read_bytes_internal_def Let_def)

lemma read_bytes_cursor [simp]:
  "cursor_ok ctx \<Longrightarrow> cursor_ok (fst (snd (gif_read_bytes_internal ctx b off n)))"
  by (simp add: gif_read_bytes_internal_def cursor_ok_def Let_def)

lemma report_cursor [simp]: "cursor_ok (gif_report_error ctx e m) = cursor_ok ctx"
  by (simp add: cursor_ok_def)

lemma discard_keeps [simp]:
  "gif_size (gif_discard_sub_blocks ctx) = gif_size ctx"
  "gif_data (gif_discard_sub_blocks ctx) = gif_data ctx"
  "anim_start_pos (gif_discard_sub_blocks ctx) = anim_start_pos ctx"
  "disposal_method (gif_discard_sub_blocks ctx) = disposal_method ctx"
  "has_transparency (gif_discard_sub_blocks ctx) = has_transparency ctx"
  "transparent_index (gif_discard_sub_blocks ctx) = transparent_index ctx"
  "frame_delay_ms (gif_discard_sub_blocks ctx) = frame_delay_ms ctx"
  "loop_count (gif_discard_sub_blocks ctx) = loop_count ctx"
  "error_callback (gif_discard_sub_blocks ctx) = error_callback ctx"
  by (induction ctx rule: gif_discard_sub_blocks.induct,
      subst gif_discard_sub_blocks.simps, simp add: case_prod_beta)+

lemma discard_cursor [simp]:
  "cursor_ok ctx \<Longrightarrow> cursor_ok (gif_discard_sub_blocks ctx)"
  by (induction ctx rule: gif_discard_sub_blocks.induct,
      subst gif_discard_sub_blocks.simps, simp add: case_prod_beta)


lemma cursor_ok_update [simp]:
  "cursor_ok (ctx\<lparr>disposal_method := v1\<rparr>) = cursor_ok ctx"
  "cursor_ok (ctx\<lparr>has_transparency := v1\<rparr>) = cursor_ok ctx"
  "cursor_ok (ctx\<lparr>transparent_index := v1\<rparr>) = cursor_ok ctx"
  "cursor_ok (ctx\<lparr>frame_delay_ms := v2\<rparr>) = cursor_ok ctx"
  "cursor_ok (ctx\<lparr>loop_count := v2\<rparr>) = cursor_ok ctx"
  "cursor_ok (ctx\<lparr>frame_x_off := v2\<rparr>) = cursor_ok ctx"
  "cursor_ok (ctx\<lparr>frame_y_off := v2\<rparr>) = cursor_ok ctx"
  "cursor_ok (ctx\<lparr>frame_width := v3\<rparr>) = cursor_ok ctx"
  "cursor_ok (ctx\<lparr>frame_height := v3\<rparr>) = cursor_ok ctx"
  "cursor_ok (ctx\<lparr>ucGIFBits := v1\<rparr>) = cursor_ok ctx"
  "cursor_ok (ctx\<lparr>lzw_code_start_size := v1\<rparr>) = cursor_ok ctx"
  "cursor_ok (ctx\<lparr>lzw_end_of_frame := v1\<rparr>) = cursor_ok ctx"
  "cursor_ok (ctx\<lparr>lzw_read_offset := v4\<rparr>) = cursor_ok ctx"
  "cursor_ok (ctx\<lparr>lzw_data_size := v4\<rparr>) = cursor_ok ctx"
  "cursor_ok (ctx\<lparr>scratch_memory := v5\<rparr>) = cursor_ok ctx"
  "cursor_ok (ctx\<lparr>local_palette_colors := v5\<rparr>) = cursor_ok ctx"
  "cursor_ok (ctx\<lparr>active_palette_colors := v7\<rparr>) = cursor_ok ctx"
  by (simp_all add: cursor_ok_def)

lemma gce_keeps [simp]:
  "gif_size (gif_read_graphic_control_ext ctx) = gif_size ctx"
  "gif_data (gif_read_graphic_control_ext ctx) = gif_data ctx"
  "anim_start_pos (gif_read_graphic_control_ext ctx) = anim_start_pos ctx"
  by (simp_all add: gif_read_graphic_control_ext_def Let_def case_prod_beta)

lemma gce_cursor [simp]:
  "cursor_ok ctx \<Longrightarrow> cursor_ok (gif_read_graphic_control_ext ctx)"
  by (simp add: gif_read_graphic_control_ext_def Let_def case_prod_beta)

lemma app_keeps [simp]:
  "gif_size (gif_read_application_ext ctx) = gif_size ctx"
  "gif_data (gif_read_application_ext ctx) = gif_data ctx"
  "anim_start_pos (gif_read_application_ext ctx) = anim_start_pos ctx"
  "disposal_method (gif_read_application_ext ctx) = disposal_method ctx"
  "has_transparency (gif_read_application_ext ctx) = has_transparency ctx"
  "transparent_index (gif_read_application_ext ctx) = transparent_index ctx"
  by (simp_all add: gif_read_application_ext_def Let_def case_prod_beta)

lemma app_cursor [simp]:
  "cursor_ok ctx \<Longrightarrow> cursor_ok (gif_read_application_ext ctx)"
  by (simp add: gif_read_application_ext_def Let_def case_prod_beta)

lemma ext_keeps [simp]:
  "gif_size (gif_read_ext ctx) = gif_size ctx"
  "gif_data (gif_read_ext ctx) = gif_data ctx"
  "anim_start_pos (gif_read_ext ctx) = anim_start_pos ctx"
  by (simp_all add: gif_read_ext_def Let_def case_prod_beta)

lemma ext_cursor [simp]:
  "cursor_ok ctx \<Longrightarrow> cursor_ok (gif_read_ext ctx)"
  by (simp add: gif_read_ext_def Let_def case_prod_beta)

lemma ext_keeps_gce:
  "current_pos ctx < gif_size ctx \<Longrightarrow> gif_data ctx (current_pos ctx) \<noteq> 0xF9 \<Longrightarrow>
   disposal_method (gif_read_ext ctx) = disposal_method ctx
   \<and> has_transparency (gif_read_ext ctx) = has_transparency ctx
   \<and> transparent_index (gif_read_ext ctx) = transparent_index ctx"
  by (simp add: gif_read_ext_def Let_def case_prod_beta gif_read_byte_internal_def)


section \<open>Running the model on a concrete file\<close>

text \<open>
  The equations that evaluate the model by rewriting: stores are only unfolded where
  they are applied to an offset, and fuel given as a numeral is counted down.
\<close>

lemma memcpy_apply:
  "memcpy dst doff src soff n i
     = (if doff \<le> i \<and> i < doff + n then src (soff + (i - doff)) else dst i)"
  by (simp add: memcpy_def)

lemma bytes_of_apply: "bytes_of xs i = (if i < length xs then xs ! i else 0)"
  by (simp add: bytes_of_def)

lemma memcpy_list_apply:
  "memcpy_list dst doff xs i
     = (if doff \<le> i \<and> i < doff + length xs then xs ! (i - doff) else dst i)"
  by (simp add: memcpy_list_def)

lemma memset_apply:
  "memset mem off v n i = (if off \<le> i \<and> i < off + n then v else mem i)"
  by (simp add: memset_def)

lemmas store_eval = memcpy_apply bytes_of_apply memcpy_list_apply memset_apply

lemma fuel_numeral:
  "lzw_decode_init (numeral k) c0 ctx L frame_buffer =
     (case lzw_first_code c0 ctx L of
        None \<Rightarrow> None
      | Some (Inl ctx1) \<Rightarrow> Some (GIF_ERROR_DECODE, ctx1, frame_buffer)
      | Some (Inr (ctx1, L1)) \<Rightarrow> lzw_decode_loop (pred_numeral k) c0 ctx1 L1 frame_buffer)"
  "lzw_decode_loop (numeral k) c0 ctx L frame_buffer =
     (if lzw_code L \<noteq> eoi_code L
      then (case GET_LZW_CODE c0 ctx L of (ctx1, L1) \<Rightarrow>
              if lzw_code L1 = clear_code L1
              then lzw_decode_init (pred_numeral k) c0 ctx1 L1 frame_buffer
              else if lzw_code L1 \<noteq> eoi_code L1
                   then (case lzw_step ctx1 L1 frame_buffer of
                           Inl ctx2 \<Rightarrow> Some (GIF_ERROR_DECODE, ctx2, frame_buffer)
                         | Inr (ctx2, L2, fb) \<Rightarrow> lzw_decode_loop (pred_numeral k) c0 ctx2 L2 fb)
                   else lzw_decode_loop (pred_numeral k) c0 ctx1 L1 frame_buffer)
      else Some (GIF_SUCCESS, ctx, frame_buffer))"
  "gif_next_frame_scan (numeral k) ctx =
     (if current_pos ctx < gif_size ctx
      then (case gif_read_byte_internal ctx of (separator, ctx1) \<Rightarrow>
              if separator = 0x3B
              then (if loop_count ctx1 = - 1 \<or> sint (loop_count ctx1) > 0
                    then gif_next_frame_scan (pred_numeral k)
                           (gif_rewind (if sint (loop_count ctx1) > 0
                                        then ctx1\<lparr>loop_count := loop_count ctx1 - 1\<rparr>
                                        else ctx1))
                    else Some (Some 0, ctx1))
              else if separator = 0x21 then gif_next_frame_scan (pred_numeral k) (gif_read_ext ctx1)
              else if separator = 0x2C then Some (None, ctx1)
              else Some (Some (- 1),
                         gif_report_error ctx1 GIF_ERROR_BAD_FILE
                           ''Unexpected byte in GIF stream.''))
      else Some (None, ctx))"
  by (simp_all add: numeral_eq_Suc)

lemma calls_numeral:
  "gif_calls (numeral k) fuel c0 ctx frame_buffer delay_ms =
     (case gif_next_frame fuel c0 ctx frame_buffer delay_ms of
        None \<Rightarrow> None
      | Some (r, ctx1, fb, d) \<Rightarrow>
          (case gif_calls (pred_numeral k) fuel c0 ctx1 fb d of
             None \<Rightarrow> None
           | Some (rs, ctx2, fb2) \<Rightarrow> Some ((r, d) # rs, ctx2, fb2)))"
  by (simp add: numeral_eq_Suc)

lemmas gif_eval =
  fuel_numeral calls_numeral store_eval
  gif_report_error_def gif_read_u16_le_def gif_read_bytes_internal_def
  gif_skip_bytes_internal_def gif_read_byte_internal_def gif_discard_sub_blocks.simps
  gif_read_graphic_control_ext_def gif_read_application_ext_def gif_read_ext_def
  gif_get_more_lzw_data_loop.simps gif_get_more_lzw_data_def read_u32_le_def
  GET_LZW_CODE_def lzw_walk.simps lzw_init_root_def lzw_init_roots_def
  lzw_memset_table_def write_u16_le_def
  interlaced_line_offset_def interlaced_line_stride_def interlace_next_pass.simps
  active_palette_def dest_row_start_def put_pixel_def draw_line_def flush_line_def
  lzw_first_code_def lzw_append_code_def lzw_add_entry_def lzw_grow_def lzw_expand_def
  lzw_step_def
  lzw_entry_def gif_decode_lzw_def gif_rewind_def gif_set_error_callback_def null_context_def
  gif_next_frame_lzw_def gif_next_frame_image_def
  gif_next_frame_restart_def gif_next_frame_def
  GIF_MAX_WIDTH_def GIF_MAX_COLORS_def GIF_MAX_CODE_SIZE_def GIF_LZW_CHUNK_SIZE_def
  GIF_LZW_BASE_BUF_SIZE_def GIF_LZW_TABLE_ENTRIES_def

text \<open>
  Evaluation runs call by value: the bound term of a \<open>let\<close> and the scrutinee of a
  \<open>case\<close> are rewritten before the body is (\<open>let_weak_cong\<close>,
  \<open>prod.case_cong_weak\<close>).
\<close>

lemmas init_eval =
  open_gif_def gif_init_def zero_context_def null_context_def
  gif_read_bytes_internal_def gif_read_u16_le_def gif_report_error_def
  GIF_SCRATCH_BUFFER_REQUIRED_SIZE_def GIF_MAX_COLORS_def GIF_LZW_BASE_BUF_SIZE_def
  GIF_LZW_TABLE_ENTRIES_def Let_def store_eval gif_header_def image_block_def

lemmas run_eval =
  gif_eval gif_header_def image_block_def upt_rec Let_def
  word_le_nat_alt word_less_nat_alt

text \<open>The contexts that \<^verbatim>\<open>gif_init\<close> makes of the test inputs.\<close>

lemma open_minimal:
  "open_gif minimal_gif =
     null_context\<lparr>gif_data := bytes_of minimal_gif, gif_size := 35, current_pos := 19,
       canvas_width := 1, canvas_height := 1, loop_count := - 1,
       global_palette_colors := memcpy (\<lambda>_. 0) 0 (bytes_of minimal_gif) 13 6,
       anim_start_pos := 19,
       scratch_lzw_table := 1530, scratch_lzw_pixels := 9722,
       scratch_line_buffer := 17914,
       file_buf := memcpy (\<lambda>_. 0) 0 (bytes_of minimal_gif) 0 13\<rparr>"
  by (simp add: init_eval minimal_gif_def)

lemma open_two_frames:
  "open_gif two_frames_gif =
     null_context\<lparr>gif_data := bytes_of two_frames_gif, gif_size := 64, current_pos := 25,
       canvas_width := 2, canvas_height := 1, loop_count := - 1, background_index := 1,
       global_palette_colors := memcpy (\<lambda>_. 0) 0 (bytes_of two_frames_gif) 13 12,
       anim_start_pos := 25,
       scratch_lzw_table := 1530, scratch_lzw_pixels := 9722,
       scratch_line_buffer := 17914,
       file_buf := memcpy (\<lambda>_. 0) 0 (bytes_of two_frames_gif) 0 13\<rparr>"
  by (simp add: init_eval two_frames_gif_def)

lemma open_loop:
  "open_gif (loop_gif k) =
     null_context\<lparr>gif_data := bytes_of (loop_gif k), gif_size := 60, current_pos := 25,
       canvas_width := 2, canvas_height := 1, loop_count := - 1, background_index := 1,
       global_palette_colors := memcpy (\<lambda>_. 0) 0 (bytes_of (loop_gif k)) 13 12,
       anim_start_pos := 25,
       scratch_lzw_table := 1530, scratch_lzw_pixels := 9722,
       scratch_line_buffer := 17914,
       file_buf := memcpy (\<lambda>_. 0) 0 (bytes_of (loop_gif k)) 0 13\<rparr>"
  by (simp add: init_eval loop_gif_def)

lemma open_short:
  "open_gif short_lzw_gif =
     null_context\<lparr>gif_data := bytes_of short_lzw_gif, gif_size := 41, current_pos := 25,
       canvas_width := 2, canvas_height := 2, loop_count := - 1,
       global_palette_colors := memcpy (\<lambda>_. 0) 0 (bytes_of short_lzw_gif) 13 12,
       anim_start_pos := 25,
       scratch_lzw_table := 1530, scratch_lzw_pixels := 9722,
       scratch_line_buffer := 17914,
       file_buf := memcpy (\<lambda>_. 0) 0 (bytes_of short_lzw_gif) 0 13\<rparr>"
  by (simp add: init_eval short_lzw_gif_def)

lemma open_truncated:
  "open_gif truncated_gif =
     null_context\<lparr>gif_data := bytes_of truncated_gif, gif_size := 39, current_pos := 25,
       canvas_width := 2, canvas_height := 2, loop_count := - 1,
       global_palette_colors := memcpy (\<lambda>_. 0) 0 (bytes_of truncated_gif) 13 12,
       anim_start_pos := 25,
       scratch_lzw_table := 1530, scratch_lzw_pixels := 9722,
       scratch_line_buffer := 17914,
       file_buf := memcpy (\<lambda>_. 0) 0 (bytes_of truncated_gif) 0 13\<rparr>"
  by (simp add: init_eval truncated_gif_def)

lemma open_bad_code:
  "open_gif bad_code_gif =
     null_context\<lparr>gif_data := bytes_of bad_code_gif, gif_size := 41, current_pos := 25,
       canvas_width := 2, canvas_height := 1, loop_count := - 1,
       global_palette_colors := memcpy (\<lambda>_. 0) 0 (bytes_of bad_code_gif) 13 12,
       anim_start_pos := 25,
       scratch_lzw_table := 1530, scratch_lzw_pixels := 9722,
       scratch_line_buffer := 17914,
       file_buf := memcpy (\<lambda>_. 0) 0 (bytes_of bad_code_gif) 0 13\<rparr>"
  by (simp add: init_eval bad_code_gif_def)

lemma open_straddle:
  "open_gif straddle_gif =
     null_context\<lparr>gif_data := bytes_of straddle_gif, gif_size := 42, current_pos := 25,
       canvas_width := 2, canvas_height := 3, loop_count := - 1,
       global_palette_colors := memcpy (\<lambda>_. 0) 0 (bytes_of straddle_gif) 13 12,
       anim_start_pos := 25,
       scratch_lzw_table := 1530, scratch_lzw_pixels := 9722,
       scratch_line_buffer := 17914,
       file_buf := memcpy (\<lambda>_. 0) 0 (bytes_of straddle_gif) 0 13\<rparr>"
  by (simp add: init_eval straddle_gif_def)

lemma open_interlaced:
  "open_gif interlaced_gif =
     null_context\<lparr>gif_data := bytes_of interlaced_gif, gif_size := 43, current_pos := 25,
       canvas_width := 2, canvas_height := 3, loop_count := - 1,
       global_palette_colors := memcpy (\<lambda>_. 0) 0 (bytes_of interlaced_gif) 13 12,
       anim_start_pos := 25,
       scratch_lzw_table := 1530, scratch_lzw_pixels := 9722,
       scratch_line_buffer := 17914,
       file_buf := memcpy (\<lambda>_. 0) 0 (bytes_of interlaced_gif) 0 13\<rparr>"
  by (simp add: init_eval interlaced_gif_def interlaced_block_def)

lemma open_overrun:
  "open_gif overrun_gif =
     null_context\<lparr>gif_data := bytes_of overrun_gif, gif_size := 41, current_pos := 25,
       canvas_width := 1, canvas_height := 1, loop_count := - 1,
       global_palette_colors := memcpy (\<lambda>_. 0) 0 (bytes_of overrun_gif) 13 12,
       anim_start_pos := 25,
       scratch_lzw_table := 1530, scratch_lzw_pixels := 9722,
       scratch_line_buffer := 17914,
       file_buf := memcpy (\<lambda>_. 0) 0 (bytes_of overrun_gif) 0 13\<rparr>"
  by (simp add: init_eval overrun_gif_def interlaced_block_def)


section \<open>What decoding a frame leaves alone\<close>

lemma kept_refl [simp]: "kept a a"
  by (simp add: kept_def)

lemma kept_trans: "kept a b \<Longrightarrow> kept b c \<Longrightarrow> kept a c"
  by (simp add: kept_def)

lemma kept_update [simp]:
  "kept a (b\<lparr>frame_x_off := v2\<rparr>) = kept a b"
  "kept a (b\<lparr>frame_y_off := v2\<rparr>) = kept a b"
  "kept a (b\<lparr>frame_width := v3\<rparr>) = kept a b"
  "kept a (b\<lparr>frame_height := v3\<rparr>) = kept a b"
  "kept a (b\<lparr>ucGIFBits := v1\<rparr>) = kept a b"
  "kept a (b\<lparr>lzw_code_start_size := v1\<rparr>) = kept a b"
  "kept a (b\<lparr>lzw_end_of_frame := v1\<rparr>) = kept a b"
  "kept a (b\<lparr>lzw_read_offset := v4\<rparr>) = kept a b"
  "kept a (b\<lparr>lzw_data_size := v4\<rparr>) = kept a b"
  "kept a (b\<lparr>scratch_memory := v5\<rparr>) = kept a b"
  "kept a (b\<lparr>local_palette_colors := v5\<rparr>) = kept a b"
  "kept a (b\<lparr>active_palette_colors := v7\<rparr>) = kept a b"
  by (simp_all add: kept_def)

lemma kept_report [simp]: "kept a (gif_report_error b e m) = kept a b"
  by (simp add: kept_def)

lemma kept_read_byte [simp]: "kept a b \<Longrightarrow> kept a (snd (gif_read_byte_internal b))"
  by (simp add: kept_def)

lemma kept_skip [simp]: "kept a b \<Longrightarrow> kept a (gif_skip_bytes_internal b n)"
  by (simp add: kept_def)

lemma kept_read_bytes [simp]:
  "kept a b \<Longrightarrow> kept a (fst (snd (gif_read_bytes_internal b buf off n)))"
  by (simp add: kept_def)

lemma kept_discard [simp]: "kept a b \<Longrightarrow> kept a (gif_discard_sub_blocks b)"
  by (simp add: kept_def)

lemma kept_refill_loop [simp]:
  "kept a ctx \<Longrightarrow> kept a (snd (gif_get_more_lzw_data_loop c ctx))"
proof (induction c ctx rule: gif_get_more_lzw_data_loop.induct)
  case (1 c ctx)
  obtain c' ctx1 where rb: "gif_read_byte_internal ctx = (c', ctx1)"
    by (cases "gif_read_byte_internal ctx")
  obtain n ctx2 buf where
    rbs: "gif_read_bytes_internal ctx1 (scratch_memory ctx1)
            (scratch_lzw_buffer ctx1 + nat (lzw_data_size ctx1)) (unat c') = (n, ctx2, buf)"
    by (cases "gif_read_bytes_internal ctx1 (scratch_memory ctx1)
                 (scratch_lzw_buffer ctx1 + nat (lzw_data_size ctx1)) (unat c')")
  have k1: "kept a ctx1"
    using "1.prems" kept_read_byte [of a ctx] rb by simp
  have k2: "kept a ctx2"
    using k1 kept_read_bytes [of a ctx1 "scratch_memory ctx1"
                                "scratch_lzw_buffer ctx1 + nat (lzw_data_size ctx1)"
                                "unat c'"] rbs
    by simp
  let ?go = "(lzw_data_size ctx < int GIF_LZW_BASE_BUF_SIZE - int GIF_LZW_CHUNK_SIZE
               \<and> current_pos ctx < gif_size ctx) \<and> c' \<noteq> 0 \<and> \<not> n < unat c'"
  show ?case
  proof (cases ?go)
    case True
    have "kept a (snd (gif_get_more_lzw_data_loop c'
                        (ctx2\<lparr>scratch_memory := buf,
                              lzw_data_size := lzw_data_size ctx2 + int n\<rparr>)))"
      by (rule "1.IH" [OF _ rb [symmetric] _ rbs [symmetric] refl refl])
         (use True k2 in simp_all)
    with True rb rbs show ?thesis
      by (subst gif_get_more_lzw_data_loop.simps) (simp add: Let_def)
  next
    case False
    with "1.prems" k1 k2 rb rbs show ?thesis
      by (subst gif_get_more_lzw_data_loop.simps) (auto simp: Let_def)
  qed
qed

lemma kept_refill [simp]:
  "kept a ctx \<Longrightarrow> kept a (snd (gif_get_more_lzw_data c ctx))"
  by (simp add: gif_get_more_lzw_data_def Let_def)

lemma kept_get_code [simp]:
  "kept a ctx \<Longrightarrow> kept a (fst (GET_LZW_CODE c0 ctx L))"
  by (simp add: GET_LZW_CODE_def Let_def case_prod_beta)

lemma kept_tables [simp]:
  "kept a (lzw_init_roots ctx clear) = kept a ctx"
  "lzw_memset_table ctx clear = Some ctx1 \<Longrightarrow> kept a ctx1 = kept a ctx"
  by (auto simp: lzw_init_roots_def lzw_memset_table_def split: if_splits)

lemma kept_first_code:
  "kept a ctx \<Longrightarrow>
   (case lzw_first_code c0 ctx L of
      None \<Rightarrow> True
    | Some (Inl ctx1) \<Rightarrow> kept a ctx1
    | Some (Inr (ctx1, L1)) \<Rightarrow> kept a ctx1)"
  by (simp add: lzw_first_code_def Let_def case_prod_beta split: option.split)

lemma flush_line_Inl:
  "flush_line ctx L fb = Inl ctx1 \<Longrightarrow>
     ctx1 = gif_report_error ctx GIF_ERROR_DECODE
              ''Interlaced GIF decoding error: line out of bounds.''"
  by (auto simp: flush_line_def split: if_splits prod.splits)

lemma kept_append_code [simp]: "kept a (fst (lzw_append_code ctx L)) = kept a ctx"
  by (simp add: lzw_append_code_def Let_def case_prod_beta)

lemma kept_add_entry [simp]: "kept a (fst (lzw_add_entry ctx L)) = kept a ctx"
  by (simp add: lzw_add_entry_def Let_def)

lemma kept_expand [simp]: "kept a (fst (lzw_expand ctx L)) = kept a ctx"
  by (simp add: lzw_expand_def Let_def case_prod_beta)

lemma kept_step:
  assumes k: "kept a ctx"
  shows "case lzw_step ctx L fb of Inl ctx1 \<Rightarrow> kept a ctx1 | Inr (ctx1, L1, fb1) \<Rightarrow> kept a ctx1"
proof -
  let ?c2 = "fst (lzw_expand ctx L)"
  let ?L3 = "snd (lzw_expand ctx L)"
  have k2: "kept a ?c2" using k by simp
  show ?thesis
  proof (cases "flush_line ?c2 ?L3 fb")
    case (Inl c3)
    from flush_line_Inl [OF Inl] k2 have "kept a c3" by simp
    with Inl show ?thesis by (simp add: lzw_step_def Let_def case_prod_beta)
  next
    case (Inr q)
    with k2 show ?thesis by (simp add: lzw_step_def Let_def case_prod_beta)
  qed
qed

lemma kept_decode_loops:
  "(\<forall>ctx L fb. kept a ctx \<longrightarrow> lzw_decode_init n c0 ctx L fb = Some (r, ctx', fb')
       \<longrightarrow> kept a ctx')
   \<and> (\<forall>ctx L fb. kept a ctx \<longrightarrow> lzw_decode_loop n c0 ctx L fb = Some (r, ctx', fb')
       \<longrightarrow> kept a ctx')"
proof (induction n)
  case 0
  show ?case by simp
next
  case (Suc n)
  note ih_init = Suc.IH [THEN conjunct1, rule_format]
   and ih_loop = Suc.IH [THEN conjunct2, rule_format]
  show ?case
  proof (intro conjI allI impI)
    fix ctx L fb
    assume k: "kept a ctx"
       and d: "lzw_decode_init (Suc n) c0 ctx L fb = Some (r, ctx', fb')"
    show "kept a ctx'"
    proof (cases "lzw_first_code c0 ctx L")
      case None
      with d show ?thesis by simp
    next
      case (Some res)
      show ?thesis
      proof (cases res)
        case (Inl c1)
        with d Some have "ctx' = c1" by simp
        moreover from kept_first_code [OF k, of c0 L] Some Inl have "kept a c1" by simp
        ultimately show ?thesis by simp
      next
        case (Inr p)
        obtain c1 L1 where p: "p = (c1, L1)" by (cases p)
        from kept_first_code [OF k, of c0 L] Some Inr p have k1: "kept a c1" by simp
        from d Some Inr p have "lzw_decode_loop n c0 c1 L1 fb = Some (r, ctx', fb')" by simp
        from ih_loop [OF k1 this] show ?thesis .
      qed
    qed
  next
    fix ctx L fb
    assume k: "kept a ctx"
       and d: "lzw_decode_loop (Suc n) c0 ctx L fb = Some (r, ctx', fb')"
    obtain c1 L1 where g: "GET_LZW_CODE c0 ctx L = (c1, L1)"
      by (cases "GET_LZW_CODE c0 ctx L")
    have k1: "kept a c1" using kept_get_code [OF k, of c0 L] g by simp
    show "kept a ctx'"
    proof (cases "lzw_code L \<noteq> eoi_code L")
      case False
      with d k show ?thesis by simp
    next
      case ne: True
      show ?thesis
      proof (cases "lzw_code L1 = clear_code L1")
        case True
        with d ne g have "lzw_decode_init n c0 c1 L1 fb = Some (r, ctx', fb')" by simp
        from ih_init [OF k1 this] show ?thesis .
      next
        case nc: False
        show ?thesis
        proof (cases "lzw_code L1 \<noteq> eoi_code L1")
          case False
          with d ne g nc have "lzw_decode_loop n c0 c1 L1 fb = Some (r, ctx', fb')" by simp
          from ih_loop [OF k1 this] show ?thesis .
        next
          case True
          show ?thesis
          proof (cases "lzw_step c1 L1 fb")
            case (Inl c2)
            with d ne g nc True have "ctx' = c2" by simp
            moreover from kept_step [OF k1, of L1 fb] Inl have "kept a c2" by simp
            ultimately show ?thesis by simp
          next
            case (Inr q)
            obtain c2 L2 fb2 where q: "q = (c2, L2, fb2)" by (cases q)
            from kept_step [OF k1, of L1 fb] Inr q have k2: "kept a c2" by simp
            from d ne g nc True Inr q
            have "lzw_decode_loop n c0 c2 L2 fb2 = Some (r, ctx', fb')" by simp
            from ih_loop [OF k2 this] show ?thesis .
          qed
        qed
      qed
    qed
  qed
qed

lemma kept_decode:
  assumes d: "gif_decode_lzw n c0 ctx fb = Some (r, ctx', fb')"
  shows "kept ctx ctx'"
proof -
  let ?c1 = "ctx\<lparr>lzw_read_offset := 0, lzw_data_size := 0, lzw_end_of_frame := 0\<rparr>"
  obtain ok c2 where g: "gif_get_more_lzw_data c0 ?c1 = (ok, c2)"
    by (cases "gif_get_more_lzw_data c0 ?c1")
  have k: "kept ctx c2"
    using kept_refill [of ctx ?c1 c0] g by simp
  show ?thesis
  proof (cases ok)
    case False
    with d g have "ctx' = gif_report_error c2 GIF_ERROR_EARLY_EOF
                            ''Failed to get initial LZW data for frame.''"
      by (simp add: gif_decode_lzw_def)
    with k show ?thesis by simp
  next
    case True
    obtain c3 L where e: "lzw_entry c2 = (c3, L)" by (cases "lzw_entry c2")
    then have "c3 = lzw_init_roots c2 (push_bit (unat (lzw_code_start_size c2)) 1)"
      by (simp add: lzw_entry_def Let_def)
    with k have k3: "kept ctx c3" by simp
    from d g True e have "lzw_decode_init n c0 c3 L fb = Some (r, ctx', fb')"
      by (simp add: gif_decode_lzw_def Let_def)
    from kept_decode_loops [THEN conjunct1, rule_format, OF k3 this] show ?thesis .
  qed
qed


lemma rewind_cursor [simp]: "cursor_ok ctx \<Longrightarrow> cursor_ok (gif_rewind ctx)"
  by (simp add: gif_rewind_def cursor_ok_def)

lemma kept_cursor: "kept a b \<Longrightarrow> cursor_ok a \<Longrightarrow> cursor_ok b"
  by (simp add: kept_def)

lemma scan_cursor:
  "cursor_ok ctx \<Longrightarrow> gif_next_frame_scan n ctx = Some (x, ctx') \<Longrightarrow> cursor_ok ctx'"
proof (induction n arbitrary: ctx)
  case 0
  then show ?case by simp
next
  case (Suc n)
  obtain s c1 where rb: "gif_read_byte_internal ctx = (s, c1)"
    by (cases "gif_read_byte_internal ctx")
  have k1: "cursor_ok c1" using read_byte_cursor [OF Suc.prems(1)] rb by simp
  show ?case
  proof (cases "current_pos ctx < gif_size ctx")
    case False
    with Suc.prems show ?thesis by simp
  next
    case True
    consider (trailer_loop) "s = 0x3B" "loop_count c1 = - 1 \<or> sint (loop_count c1) > 0"
      | (trailer_done) "s = 0x3B" "\<not> (loop_count c1 = - 1 \<or> sint (loop_count c1) > 0)"
      | (ext) "s \<noteq> 0x3B" "s = 0x21"
      | (image) "s \<noteq> 0x3B" "s \<noteq> 0x21" "s = 0x2C"
      | (bad) "s \<noteq> 0x3B" "s \<noteq> 0x21" "s \<noteq> 0x2C"
      by blast
    then show ?thesis
    proof cases
      case trailer_loop
      let ?c = "gif_rewind (if sint (loop_count c1) > 0
                            then c1\<lparr>loop_count := loop_count c1 - 1\<rparr> else c1)"
      have "cursor_ok ?c" using k1 by simp
      moreover have "gif_next_frame_scan n ?c = Some (x, ctx')"
        using Suc.prems(2) True rb trailer_loop by simp
      ultimately show ?thesis by (rule Suc.IH)
    next
      case trailer_done
      with Suc.prems(2) True rb k1 show ?thesis by auto
    next
      case ext
      have "cursor_ok (gif_read_ext c1)" using k1 by simp
      moreover have "gif_next_frame_scan n (gif_read_ext c1) = Some (x, ctx')"
        using Suc.prems(2) True rb ext by simp
      ultimately show ?thesis by (rule Suc.IH)
    next
      case image
      with Suc.prems(2) True rb k1 show ?thesis by auto
    next
      case bad
      with Suc.prems(2) True rb k1 show ?thesis by auto
    qed
  qed
qed

lemma kept_frame_lzw:
  assumes k: "kept a ctx"
      and r: "gif_next_frame_lzw n c0 ctx fb d = Some (r, ctx', fb', d')"
  shows "kept a ctx'"
proof -
  let ?c2 = "(snd (gif_read_byte_internal ctx))\<lparr>lzw_code_start_size :=
               fst (gif_read_byte_internal ctx)\<rparr>"
  have k2: "kept a ?c2" using k by simp
  from r obtain e c3 fb3 where d: "gif_decode_lzw n c0 ?c2 fb = Some (e, c3, fb3)"
    by (auto simp: gif_next_frame_lzw_def Let_def case_prod_beta split: option.splits)
  have k3: "kept a c3" using kept_trans [OF k2 kept_decode [OF d]] .
  from r d k3 show ?thesis
    by (auto simp: gif_next_frame_lzw_def Let_def case_prod_beta split: if_splits)
qed

lemma kept_frame_image:
  assumes r: "gif_next_frame_image n c0 ctx fb d = Some (r, ctx', fb', d')"
  shows "kept ctx ctx'"
  using r unfolding gif_next_frame_image_def Let_def case_prod_beta
  by (auto split: if_splits elim!: kept_frame_lzw [rotated])


lemma restart_cursor:
  "cursor_ok ctx \<Longrightarrow> gif_next_frame_restart ctx = Some c \<Longrightarrow> cursor_ok c"
  by (auto simp: gif_next_frame_restart_def split: if_splits)

lemma next_frame_cursor:
  assumes ok: "cursor_ok ctx"
      and r: "gif_next_frame n c0 ctx fb d = Some (r, ctx', fb', d')"
  shows "cursor_ok ctx'"
proof (cases "gif_next_frame_restart ctx")
  case None
  with r ok show ?thesis by (simp add: gif_next_frame_def)
next
  case (Some c)
  have k0: "cursor_ok c" using restart_cursor [OF ok Some] .
  from r Some obtain x c1 where sc: "gif_next_frame_scan n c = Some (x, c1)"
    by (auto simp: gif_next_frame_def split: option.splits)
  have k1: "cursor_ok c1" using scan_cursor [OF k0 sc] .
  show ?thesis
  proof (cases x)
    case (Some v)
    with r \<open>gif_next_frame_restart ctx = Some c\<close> sc k1 show ?thesis
      by (simp add: gif_next_frame_def)
  next
    case None
    with r \<open>gif_next_frame_restart ctx = Some c\<close> sc
    have "gif_next_frame_image n c0 c1 fb d = Some (r, ctx', fb', d')"
      by (simp add: gif_next_frame_def)
    from kept_cursor [OF kept_frame_image [OF this] k1] show ?thesis .
  qed
qed

lemma read_bytes_pos:
  "current_pos ctx \<le> gif_size ctx \<Longrightarrow> gif_size ctx = s \<Longrightarrow>
   current_pos (fst (snd (gif_read_bytes_internal ctx b off n))) \<le> s"
  by (auto simp: gif_read_bytes_internal_def Let_def)

lemma init_cursor:
  assumes "gif_init ctx0 data sz scratch ssz = (GIF_SUCCESS, ctx)"
  shows "cursor_ok ctx"
  using assms unfolding gif_init_def Let_def case_prod_beta
  by (auto simp: cursor_ok_def zero_context_def null_context_def read_bytes_pos
           split: if_splits)

lemma reachable_cursor: "reachable ctx \<Longrightarrow> cursor_ok ctx"
proof (induction rule: reachable.induct)
  case (init ctx0 data size_d scratch_buffer scratch_buffer_size ctx)
  then show ?case by (rule init_cursor)
next
  case (rewind ctx)
  then show ?case by simp
next
  case (callback ctx cb)
  then show ?case by (simp add: gif_set_error_callback_def cursor_ok_def)
next
  case (next_frame ctx fuel c0 frame_buffer delay_ms r ctx' fb' delay_ms')
  then show ?case using next_frame_cursor by blast
qed


lemma scan_at_image:
  "current_pos ctx < gif_size ctx \<Longrightarrow> gif_data ctx (current_pos ctx) = 0x2C \<Longrightarrow>
   gif_next_frame_scan (Suc n) ctx = Some (None, ctx\<lparr>current_pos := current_pos ctx + 1\<rparr>)"
  by (simp add: gif_read_byte_internal_def)

lemma init_gce_zero:
  "gif_init ctx0 data sz scratch ssz = (GIF_SUCCESS, c) \<Longrightarrow>
   disposal_method c = 0 \<and> has_transparency c = 0"
  unfolding gif_init_def Let_def case_prod_beta
  by (auto simp: zero_context_def null_context_def split: if_splits)

lemma first_block_cut_short:
  assumes "current_pos ctx < gif_size ctx" "gif_data ctx (current_pos ctx) \<noteq> 0"
      and "gif_size ctx < current_pos ctx + 1 + unat (gif_data ctx (current_pos ctx))"
  shows "fst (gif_get_more_lzw_data c0
                (ctx\<lparr>lzw_read_offset := 0, lzw_data_size := 0, lzw_end_of_frame := 0\<rparr>))
           = False"
proof -
  have "0 < unat (gif_data ctx (current_pos ctx))"
    using assms(2) by (simp add: unat_gt_0)
  with assms(3) have "gif_size ctx - Suc (current_pos ctx) < unat (gif_data ctx (current_pos ctx))"
    by arith
  with assms show ?thesis
    by (simp add: gif_get_more_lzw_data_def gif_get_more_lzw_data_loop.simps
          gif_read_byte_internal_def gif_read_bytes_internal_def Let_def
          GIF_LZW_BASE_BUF_SIZE_def GIF_LZW_CHUNK_SIZE_def)
qed

section \<open>Facts about the compositor and the interlace mapper\<close>

lemma put_pixel_outside:
  "a < dest + i * 3 \<or> dest + i * 3 + 3 \<le> a \<Longrightarrow> put_pixel ctx dest i fb a = fb a"
  by (auto simp: put_pixel_def memcpy_def Let_def)

lemma put_pixel_inside:
  "j < 3 \<Longrightarrow>
   put_pixel ctx dest i fb (dest + i * 3 + j) =
     (if has_transparency ctx \<noteq> 0
         \<and> scratch_memory ctx (scratch_line_buffer ctx + i) = transparent_index ctx
      then (if disposal_method ctx = 2
            then active_palette ctx (unat (background_index ctx) * 3 + j)
            else fb (dest + i * 3 + j))
      else active_palette ctx
             (unat (scratch_memory ctx (scratch_line_buffer ctx + i)) * 3 + j))"
  by (simp add: put_pixel_def memcpy_def Let_def)

lemma fold_put_pixel_outside:
  "a < dest \<or> dest + n * 3 \<le> a \<Longrightarrow> fold (put_pixel ctx dest) [0..<n] fb a = fb a"
proof (induction n)
  case 0
  show ?case by simp
next
  case (Suc n)
  from Suc.prems have "a < dest + n * 3 \<or> dest + n * 3 + 3 \<le> a" by auto
  then have "put_pixel ctx dest n (fold (put_pixel ctx dest) [0..<n] fb) a
               = fold (put_pixel ctx dest) [0..<n] fb a"
    by (rule put_pixel_outside)
  moreover from Suc.prems have "a < dest \<or> dest + n * 3 \<le> a" by auto
  ultimately show ?case using Suc.IH by simp
qed

lemma fold_put_pixel_inside:
  "i < n \<Longrightarrow> j < 3 \<Longrightarrow>
   fold (put_pixel ctx dest) [0..<n] fb (dest + i * 3 + j) =
     (if has_transparency ctx \<noteq> 0
         \<and> scratch_memory ctx (scratch_line_buffer ctx + i) = transparent_index ctx
      then (if disposal_method ctx = 2
            then active_palette ctx (unat (background_index ctx) * 3 + j)
            else fb (dest + i * 3 + j))
      else active_palette ctx
             (unat (scratch_memory ctx (scratch_line_buffer ctx + i)) * 3 + j))"
proof (induction n)
  case 0
  then show ?case by simp
next
  case (Suc n)
  show ?case
  proof (cases "i = n")
    case True
    have "fold (put_pixel ctx dest) [0..<n] fb (dest + n * 3 + j) = fb (dest + n * 3 + j)"
      by (rule fold_put_pixel_outside) simp
    with True Suc.prems(2) show ?thesis
      by (simp add: put_pixel_inside)
  next
    case False
    with Suc.prems have lt: "i < n" by simp
    with Suc.prems(2) have "dest + i * 3 + j < dest + n * 3" by simp
    then have "put_pixel ctx dest n (fold (put_pixel ctx dest) [0..<n] fb) (dest + i * 3 + j)
                 = fold (put_pixel ctx dest) [0..<n] fb (dest + i * 3 + j)"
      by (intro put_pixel_outside) simp
    with Suc.IH [OF lt Suc.prems(2)] show ?thesis by simp
  qed
qed

lemma u32_ge_int:
  "0 \<le> y \<Longrightarrow> y < 2 ^ 32 \<Longrightarrow> ((word_of_int y :: u32) \<ge> w) = (uint w \<le> y)"
  by (simp add: word_le_def uint_word_of_int take_bit_eq_mod)

lemma u32_uint_of_int:
  "0 \<le> v \<Longrightarrow> v < 2 ^ 32 \<Longrightarrow> uint (word_of_int v :: u32) = v"
  by (simp add: uint_word_of_int take_bit_eq_mod)

lemma offsets_small:
  "p \<le> 3 \<Longrightarrow> 0 \<le> interlaced_line_offset p \<and> interlaced_line_offset p < 2 ^ 32"
  "p \<le> 3 \<Longrightarrow> 0 < interlaced_line_stride p \<and> interlaced_line_stride p \<le> 8"
  by (auto simp: interlaced_line_offset_def interlaced_line_stride_def nth_Cons'
      le_Suc_eq numeral_3_eq_3)

lemma next_pass_stay:
  "\<not> ((word_of_int y :: u32) \<ge> fh \<and> p < 3) \<Longrightarrow> interlace_next_pass fh p l y = (p, l, y)"
  by (subst interlace_next_pass.simps) auto

lemma next_pass_step:
  "(word_of_int y :: u32) \<ge> fh \<Longrightarrow> p < 3 \<Longrightarrow>
   interlace_next_pass fh p l y
     = interlace_next_pass fh (p + 1) 0 (interlaced_line_offset (p + 1))"
  by (subst interlace_next_pass.simps) simp

lemma next_pass_reaches:
  assumes "p < q" "q \<le> 3" "uint fh \<le> y" "0 \<le> y" "y < 2 ^ 32"
      and "\<forall>r. p < r \<and> r < q \<longrightarrow> uint fh \<le> interlaced_line_offset r"
      and "interlaced_line_offset q < uint fh"
  shows "interlace_next_pass fh p l y = (q, 0, interlaced_line_offset q)"
  using assms
proof (induction "q - p" arbitrary: p l y)
  case 0
  then show ?case by simp
next
  case (Suc k)
  have ge: "(word_of_int y :: u32) \<ge> fh" using Suc.prems by (simp add: u32_ge_int)
  have p3: "p < 3" using Suc.prems by simp
  have os: "0 \<le> interlaced_line_offset (p + 1)" "interlaced_line_offset (p + 1) < 2 ^ 32"
           "0 \<le> interlaced_line_offset q" "interlaced_line_offset q < 2 ^ 32"
    using offsets_small(1) [of "p + 1"] offsets_small(1) [of q] Suc.prems by simp_all
  show ?case
  proof (cases "p + 1 = q")
    case True
    have "\<not> ((word_of_int (interlaced_line_offset q) :: u32) \<ge> fh \<and> q < 3)"
      using Suc.prems os by (simp add: u32_ge_int)
    from next_pass_stay [OF this] next_pass_step [OF ge p3, of l] True show ?thesis by simp
  next
    case False
    have "interlace_next_pass fh (p + 1) 0 (interlaced_line_offset (p + 1))
            = (q, 0, interlaced_line_offset q)"
    proof (rule Suc.hyps(1))
      show "k = q - (p + 1)" using Suc.hyps(2) by simp
      show "p + 1 < q" using False Suc.prems by simp
      show "q \<le> 3" by fact
      show "uint fh \<le> interlaced_line_offset (p + 1)" using Suc.prems False by simp
      show "0 \<le> interlaced_line_offset (p + 1)" by fact
      show "interlaced_line_offset (p + 1) < 2 ^ 32" by fact
      show "\<forall>r. p + 1 < r \<and> r < q \<longrightarrow> uint fh \<le> interlaced_line_offset r"
        using Suc.prems by simp
      show "interlaced_line_offset q < uint fh" by fact
    qed
    with next_pass_step [OF ge p3, of l] show ?thesis by simp
  qed
qed

lemma next_pass_exhausted:
  assumes "p \<le> 3" "uint fh \<le> y" "0 \<le> y" "y < 2 ^ 32"
      and "\<forall>r. p < r \<and> r \<le> 3 \<longrightarrow> uint fh \<le> interlaced_line_offset r"
  shows "(word_of_int (snd (snd (interlace_next_pass fh p l y))) :: u32) \<ge> fh"
  using assms
proof (induction "3 - p" arbitrary: p l y)
  case 0
  then have "\<not> ((word_of_int y :: u32) \<ge> fh \<and> p < 3)" by simp
  from next_pass_stay [OF this] "0.prems" show ?case by (simp add: u32_ge_int)
next
  case (Suc k)
  have ge: "(word_of_int y :: u32) \<ge> fh" using Suc.prems by (simp add: u32_ge_int)
  have p3: "p < 3" using Suc.hyps(2) by simp
  have os: "0 \<le> interlaced_line_offset (p + 1)" "interlaced_line_offset (p + 1) < 2 ^ 32"
    using offsets_small(1) [of "p + 1"] p3 by simp_all
  have "(word_of_int (snd (snd (interlace_next_pass fh (p + 1) 0
           (interlaced_line_offset (p + 1))))) :: u32) \<ge> fh"
  proof (rule Suc.hyps(1))
    show "k = 3 - (p + 1)" using Suc.hyps(2) by simp
    show "p + 1 \<le> 3" using p3 by simp
    show "uint fh \<le> interlaced_line_offset (p + 1)" using Suc.prems p3 by simp
    show "0 \<le> interlaced_line_offset (p + 1)" by fact
    show "interlaced_line_offset (p + 1) < 2 ^ 32" by fact
    show "\<forall>r. p + 1 < r \<and> r \<le> 3 \<longrightarrow> uint fh \<le> interlaced_line_offset r"
      using Suc.prems by simp
  qed
  with next_pass_step [OF ge p3, of l] show ?case by simp
qed


lemma dest_row_start_exact:
  assumes "(unat (frame_y_off ctx) + r) * unat (canvas_width ctx) * 3 < 2 ^ 32"
  shows "dest_row_start ctx (int r)
           = ((unat (frame_y_off ctx) + r) * unat (canvas_width ctx) + unat (frame_x_off ctx)) * 3"
proof -
  let ?v = "(unat (frame_y_off ctx) + r) * unat (canvas_width ctx) * 3"
  have "(word_of_int (uint (frame_y_off ctx) + int r) :: u32) * canvas_width ctx * 3
          = of_nat ?v"
    by simp
  then have "unat ((word_of_int (uint (frame_y_off ctx) + int r) :: u32) * canvas_width ctx * 3)
               = ?v"
    using assms by (simp only: unat_of_nat) simp
  then show ?thesis
    by (simp add: dest_row_start_def algebra_simps)
qed

lemma decoder_at_result:
  "decoder_at c0 ctxS fbS ctx L fb \<Longrightarrow> lzw_decode_loop n c0 ctx L fb = Some res \<Longrightarrow>
   \<exists>m. gif_decode_lzw m c0 ctxS fbS = Some res"
proof (induction arbitrary: n res rule: decoder_at.induct)
  case (first ctx2 ctx3 L3 ctx L)
  then have "gif_decode_lzw (Suc n) c0 ctxS fbS = Some res"
    by (simp add: gif_decode_lzw_def)
  then show ?case by blast
next
  case (code ctx L fb ctx1 L1 ctx2 L2 fb2)
  from code.hyps(2-6) code.prems
  have "lzw_decode_loop (Suc n) c0 ctx L fb = Some res"
    by (simp del: lzw_decode_init.simps)
  then show ?case by (rule code.IH)
next
  case (clear ctx L fb ctx1 L1 ctx2 L2)
  from clear.hyps(5) clear.prems
  have "lzw_decode_init (Suc n) c0 ctx1 L1 fb = Some res" by simp
  with clear.hyps(2-4)
  have "lzw_decode_loop (Suc (Suc n)) c0 ctx L fb = Some res"
    by (simp del: lzw_decode_init.simps)
  then show ?case by (rule clear.IH)
qed

lemma row_offset_fits:
  assumes "unat (canvas_width ctx) \<le> GIF_MAX_WIDTH" and "r < 2 ^ 16"
  shows "(unat (frame_y_off ctx) + r) * unat (canvas_width ctx) * 3 < 2 ^ 32"
proof -
  have "unat (frame_y_off ctx) < 2 ^ 16"
    using unsigned_less [of "frame_y_off ctx"] by simp
  with assms(2) have "unat (frame_y_off ctx) + r \<le> 2 ^ 17" by simp
  moreover from assms(1) have "unat (canvas_width ctx) \<le> 480"
    by (simp add: GIF_MAX_WIDTH_def)
  ultimately have "(unat (frame_y_off ctx) + r) * unat (canvas_width ctx) \<le> 2 ^ 17 * 480"
    by (rule mult_mono) simp_all
  then show ?thesis by simp
qed

lemma canvas_offset_col: "canvas_offset ctx r col = canvas_offset ctx r 0 + col * 3"
  by (simp add: canvas_offset_def algebra_simps)

lemma draw_line_row:
  assumes "(unat (frame_y_off ctx) + r) * unat (canvas_width ctx) * 3 < 2 ^ 32"
  shows "row_written ctx r fb (draw_line ctx (int r) fb)"
proof -
  have d: "dest_row_start ctx (int r) = canvas_offset ctx r 0"
    using dest_row_start_exact [OF assms] by (simp add: canvas_offset_def)
  show ?thesis
    unfolding row_written_def draw_line_def d
  proof (intro conjI allI impI)
    fix col k assume "col < unat (frame_width ctx)" "k < (3::nat)"
    then show "fold (put_pixel ctx (canvas_offset ctx r 0)) [0..<unat (frame_width ctx)] fb
                 (canvas_offset ctx r col + k) =
          (if has_transparency ctx \<noteq> 0
              \<and> scratch_memory ctx (scratch_line_buffer ctx + col) = transparent_index ctx
           then (if disposal_method ctx = 2
                 then active_palette ctx (unat (background_index ctx) * 3 + k)
                 else fb (canvas_offset ctx r col + k))
           else active_palette ctx
                  (unat (scratch_memory ctx (scratch_line_buffer ctx + col)) * 3 + k))"
      unfolding canvas_offset_col [of ctx r col] by (rule fold_put_pixel_inside)
  next
    fix a
    assume "a < canvas_offset ctx r 0 \<or> canvas_offset ctx r (unat (frame_width ctx)) \<le> a"
    then have "a < canvas_offset ctx r 0
               \<or> canvas_offset ctx r 0 + unat (frame_width ctx) * 3 \<le> a"
      unfolding canvas_offset_col [of ctx r "unat (frame_width ctx)"] .
    then show "fold (put_pixel ctx (canvas_offset ctx r 0)) [0..<unat (frame_width ctx)] fb a
                 = fb a"
      by (rule fold_put_pixel_outside)
  qed
qed

section \<open>Compositor\<close>

text \<open>
  Claim C8. For every pixel index at column \<open>i\<close> of a flushed line and each of its three
  bytes \<open>j\<close>: if the frame has transparency and the index equals the transparent index,
  the destination byte receives the palette colour at \<^verbatim>\<open>background_index\<close> when
  \<^verbatim>\<open>disposal_method\<close> is 2 and is left as it was otherwise; if the index is not the
  transparent one (or transparency is off), it receives the byte of the palette entry
  of that index.
\<close>

theorem compositor_pixel:
  "i < unat (frame_width ctx) \<Longrightarrow> j < 3 \<Longrightarrow>
   draw_line ctx y_draw fb (dest_row_start ctx y_draw + i * 3 + j) =
     (if has_transparency ctx \<noteq> 0
         \<and> scratch_memory ctx (scratch_line_buffer ctx + i) = transparent_index ctx
      then (if disposal_method ctx = 2
            then active_palette ctx (unat (background_index ctx) * 3 + j)
            else fb (dest_row_start ctx y_draw + i * 3 + j))
      else active_palette ctx
             (unat (scratch_memory ctx (scratch_line_buffer ctx + i)) * 3 + j))"
  unfolding draw_line_def by (rule fold_put_pixel_inside)

theorem compositor_pixel_witness:
  "(0::nat) < unat (frame_width (compositor_ctx 2)) \<and> (1::nat) < unat (frame_width (compositor_ctx 2))
   \<and> (0::nat) < 3
   \<and> draw_line (compositor_ctx 2) 0 (\<lambda>_. 7) (dest_row_start (compositor_ctx 2) 0 + 0 * 3 + 0) = 255
   \<and> draw_line (compositor_ctx 1) 0 (\<lambda>_. 7) (dest_row_start (compositor_ctx 1) 0 + 0 * 3 + 0) = 7
   \<and> draw_line (compositor_ctx 2) 0 (\<lambda>_. 7) (dest_row_start (compositor_ctx 2) 0 + 1 * 3 + 0) = 0x11"
proof -
  have w: "(0::nat) < unat (frame_width (compositor_ctx 2))"
          "(1::nat) < unat (frame_width (compositor_ctx 2))"
          "(0::nat) < unat (frame_width (compositor_ctx 1))"
    by (simp_all add: compositor_ctx_def null_context_def)
  have j: "(0::nat) < 3" by simp
  from compositor_pixel [OF w(1) j, of 0 "\<lambda>_. 7"]
       compositor_pixel [OF w(3) j, of 0 "\<lambda>_. 7"]
       compositor_pixel [OF w(2) j, of 0 "\<lambda>_. 7"] w j
  show ?thesis
    by (simp add: compositor_ctx_def null_context_def active_palette_def bytes_of_def)
qed

section \<open>Interlace address mapper\<close>

text \<open>
  Two interlaced files, run through \<^verbatim>\<open>gif_next_frame\<close> with an error callback
  installed. The three lines of the first reach the canvas rows 0, 2 and 1, in this
  order. The second has a line more than its frame has rows: the call returns -1 and
  \<^verbatim>\<open>GIF_ERROR_DECODE\<close> is reported. The last fact follows that call of
  \<^verbatim>\<open>gif_decode_lzw\<close> code by code up to the flush that fails.
\<close>

lemma interlaced_run:
  "map_option (\<lambda>(rs, ctx, fb'). (rs, callback_log ctx, map fb' [0..<18]))
     (gif_calls 1 10 0 (gif_set_error_callback (open_gif interlaced_gif) True) (\<lambda>_. 0) 0)
   = Some ([(1, 0)], [],
           [10, 20, 30, 255, 255, 255, 255, 255, 255, 10, 20, 30, 17, 34, 51, 68, 85, 102])"
  apply (simp only: open_interlaced)
  apply (simp add: run_eval interlaced_gif_def interlaced_block_def
              cong: let_weak_cong prod.case_cong_weak)
  done

lemma overrun_call:
  "map_option (\<lambda>(rs, ctx, fb'). (rs, callback_log ctx, map fb' [0..<3]))
     (gif_calls 1 10 0 (gif_set_error_callback (open_gif overrun_gif) True) (\<lambda>_. 0) 0)
   = Some ([(- 1, 0)],
           [(GIF_ERROR_DECODE, ''Interlaced GIF decoding error: line out of bounds.''),
            (GIF_ERROR_DECODE, ''LZW decoding failed for frame.'')],
           [10, 20, 30])"
  apply (simp only: open_overrun)
  apply (simp add: run_eval overrun_gif_def interlaced_block_def
              cong: let_weak_cong prod.case_cong_weak)
  done

lemma overrun_run:
  "(case gif_get_more_lzw_data 0
           (overrun_entry\<lparr>lzw_read_offset := 0, lzw_data_size := 0, lzw_end_of_frame := 0\<rparr>) of
      (ok, c2) \<Rightarrow> ok \<and>
        (case lzw_entry c2 of (c3, L3) \<Rightarrow>
           (case lzw_first_code 0 c3 L3 of
              Some (Inr (cA, LA)) \<Rightarrow> lzw_code LA \<noteq> eoi_code LA \<and>
                (case GET_LZW_CODE 0 cA LA of (cB1, LB1) \<Rightarrow>
                   lzw_code LB1 \<noteq> clear_code LB1 \<and> lzw_code LB1 \<noteq> eoi_code LB1 \<and>
                   (case lzw_step cB1 LB1 (\<lambda>_. 0) of
                      Inr (cB, LB, fbB) \<Rightarrow> lzw_code LB \<noteq> eoi_code LB \<and>
                        (case GET_LZW_CODE 0 cB LB of (c1, L1) \<Rightarrow>
                           lzw_code L1 \<noteq> clear_code L1 \<and> lzw_code L1 \<noteq> eoi_code L1 \<and>
                           (case lzw_expand c1 L1 of (c, L) \<Rightarrow>
                              ucGIFBits c AND 0x40 \<noteq> 0
                              \<and> frame_width c \<le> word_of_int (current_pixel_idx L)
                              \<and> interlaced_pass L = 0 \<and> current_line_idx L = 1
                              \<and> frame_height c = 1))
                    | Inl e \<Rightarrow> False))
            | _ \<Rightarrow> False)))"
  unfolding overrun_entry_def
  apply (simp only: open_overrun)
  apply (simp add: run_eval overrun_gif_def interlaced_block_def
              cong: let_weak_cong prod.case_cong_weak)
  done

text \<open>
  Claim C6. The tables are start = 0, 4, 2, 1 and stride = 8, 8, 4, 2. When an
  interlaced frame has completed line \<open>i\<close> of pass \<open>p\<close> and flushes it:
  \<^item> if \<open>r\<close> = start[p] + i * stride[p] is below \<^verbatim>\<open>frame_height\<close>, the line is
    written to row \<open>r\<close> of the frame, that is to canvas row \<^verbatim>\<open>frame_y_off\<close> + \<open>r\<close>
    from column \<^verbatim>\<open>frame_x_off\<close> on, nothing else of the canvas changes, and the pass
    stays;
  \<^item> if it reaches \<^verbatim>\<open>frame_height\<close>, the decoder goes to the first later pass \<open>q\<close>
    whose start row is below \<^verbatim>\<open>frame_height\<close> with the line index reset to 0: the
    line is written to row start[q] and the index is 1 afterwards;
  \<^item> if no such pass is left, \<^verbatim>\<open>gif_decode_lzw\<close> returns \<^verbatim>\<open>GIF_ERROR_DECODE\<close>
    after reporting it, with the canvas as it was before that line.

  The row's byte offset in the canvas is computed at 32 bits, and the first two cases
  are stated for rows whose offset fits them; every row of a canvas that is at most
  \<^verbatim>\<open>GIF_MAX_WIDTH\<close> pixels wide does (\<open>row_offset_fits\<close>).
\<close>

theorem interlace_rows:
  assumes il: "ucGIFBits ctx AND 0x40 \<noteq> 0"
      and full: "(word_of_int (current_pixel_idx L) :: u32) \<ge> frame_width ctx"
      and p: "interlaced_pass L = p" "p \<le> 3"
      and i: "current_line_idx L = i" "0 \<le> i" "i < 2 ^ 28"
  shows "map interlaced_line_offset [0, 1, 2, 3] = [0, 4, 2, 1]
       \<and> map interlaced_line_stride [0, 1, 2, 3] = [8, 8, 4, 2]
       \<and> (int r = interlaced_line_offset p + i * interlaced_line_stride p
            \<and> r < unat (frame_height ctx)
            \<and> (unat (frame_y_off ctx) + r) * unat (canvas_width ctx) * 3 < 2 ^ 32
            \<longrightarrow> (\<exists>fb'. flush_line ctx L fb
                           = Inr (L\<lparr>current_pixel_idx := 0, current_line_idx := i + 1\<rparr>, fb')
                       \<and> row_written ctx r fb fb'))
       \<and> (uint (frame_height ctx) \<le> interlaced_line_offset p + i * interlaced_line_stride p
            \<and> p < q \<and> q \<le> 3 \<and> int r = interlaced_line_offset q
            \<and> r < unat (frame_height ctx)
            \<and> (\<forall>s. p < s \<and> s < q \<longrightarrow> uint (frame_height ctx) \<le> interlaced_line_offset s)
            \<and> (unat (frame_y_off ctx) + r) * unat (canvas_width ctx) * 3 < 2 ^ 32
            \<longrightarrow> (\<exists>fb'. flush_line ctx L fb
                           = Inr (L\<lparr>interlaced_pass := q, current_pixel_idx := 0,
                                    current_line_idx := 1\<rparr>, fb')
                       \<and> row_written ctx r fb fb'))
       \<and> (uint (frame_height ctx) \<le> interlaced_line_offset p + i * interlaced_line_stride p
            \<and> (\<forall>s. p < s \<and> s \<le> 3 \<longrightarrow> uint (frame_height ctx) \<le> interlaced_line_offset s)
            \<and> decoder_at c0 ctxS fbS ctx0 L0 fb \<and> lzw_code L0 \<noteq> eoi_code L0
            \<and> GET_LZW_CODE c0 ctx0 L0 = (ctx1, L1)
            \<and> lzw_code L1 \<noteq> clear_code L1 \<and> lzw_code L1 \<noteq> eoi_code L1
            \<and> lzw_expand ctx1 L1 = (ctx, L)
            \<longrightarrow> flush_line ctx L fb
                  = Inl (gif_report_error ctx GIF_ERROR_DECODE
                           ''Interlaced GIF decoding error: line out of bounds.'')
                \<and> (\<exists>m. gif_decode_lzw m c0 ctxS fbS
                          = Some (GIF_ERROR_DECODE,
                                  gif_report_error ctx GIF_ERROR_DECODE
                                    ''Interlaced GIF decoding error: line out of bounds.'',
                                  fb)))"
proof -
  let ?y0 = "interlaced_line_offset p + i * interlaced_line_stride p"
  let ?h = "frame_height ctx"
  let ?e = "gif_report_error ctx GIF_ERROR_DECODE
              ''Interlaced GIF decoding error: line out of bounds.''"
  have y0: "0 \<le> ?y0" "?y0 < 2 ^ 32"
  proof -
    from offsets_small [OF p(2)] i(2) show "0 \<le> ?y0" by simp
    have "i * interlaced_line_stride p \<le> i * 8"
      using offsets_small(2) [OF p(2)] i(2) by (intro mult_left_mono) simp_all
    moreover have "interlaced_line_offset p \<le> 4"
      using p(2) by (auto simp: interlaced_line_offset_def nth_Cons' le_Suc_eq numeral_3_eq_3)
    ultimately show "?y0 < 2 ^ 32" using i(3) by simp
  qed
  have tables: "map interlaced_line_offset [0, 1, 2, 3] = [0, 4, 2, 1]"
               "map interlaced_line_stride [0, 1, 2, 3] = [8, 8, 4, 2]"
    by (simp_all add: interlaced_line_offset_def interlaced_line_stride_def)
  have same: "\<exists>fb'. flush_line ctx L fb
                       = Inr (L\<lparr>current_pixel_idx := 0, current_line_idx := i + 1\<rparr>, fb')
                   \<and> row_written ctx r fb fb'"
    if a: "int r = ?y0 \<and> r < unat ?h
           \<and> (unat (frame_y_off ctx) + r) * unat (canvas_width ctx) * 3 < 2 ^ 32"
  proof -
    from a have r: "int r = ?y0" and rl: "r < unat ?h" by blast+
    have hh: "int (unat ?h) = uint ?h" by simp
    from rl have "int r < int (unat ?h)" by (simp only: of_nat_less_iff)
    then have lt: "?y0 < uint ?h" unfolding hh r .
    have n': "\<not> (word_of_int ?y0 :: u32) \<ge> ?h"
      using lt u32_ge_int [OF y0, of ?h] by simp
    then have n: "\<not> ((word_of_int ?y0 :: u32) \<ge> ?h \<and> p < 3)" by simp
    have "L\<lparr>interlaced_pass := p, current_pixel_idx := 0, current_line_idx := i + 1\<rparr>
            = L\<lparr>current_pixel_idx := 0, current_line_idx := i + 1\<rparr>"
      using p(1) by simp
    with il full p(1) i(1) n' next_pass_stay [OF n, of i]
    have "flush_line ctx L fb
            = Inr (L\<lparr>current_pixel_idx := 0, current_line_idx := i + 1\<rparr>,
                   draw_line ctx ?y0 fb)"
      by (simp add: flush_line_def)
    moreover have "row_written ctx r fb (draw_line ctx ?y0 fb)"
      using a draw_line_row [of ctx r fb] unfolding r [symmetric] by blast
    ultimately show ?thesis by blast
  qed
  have adv: "\<exists>fb'. flush_line ctx L fb
                      = Inr (L\<lparr>interlaced_pass := q, current_pixel_idx := 0,
                               current_line_idx := 1\<rparr>, fb')
                  \<and> row_written ctx r fb fb'"
    if a: "uint ?h \<le> ?y0 \<and> p < q \<and> q \<le> 3 \<and> int r = interlaced_line_offset q
           \<and> r < unat ?h
           \<and> (\<forall>s. p < s \<and> s < q \<longrightarrow> uint ?h \<le> interlaced_line_offset s)
           \<and> (unat (frame_y_off ctx) + r) * unat (canvas_width ctx) * 3 < 2 ^ 32"
  proof -
    from a have r: "int r = interlaced_line_offset q" and rl: "r < unat ?h" by blast+
    have hh: "int (unat ?h) = uint ?h" by simp
    from rl have "int r < int (unat ?h)" by (simp only: of_nat_less_iff)
    then have lt: "interlaced_line_offset q < uint ?h" unfolding hh r .
    from a lt have np: "interlace_next_pass ?h p i ?y0 = (q, 0, interlaced_line_offset q)"
      using y0 by (intro next_pass_reaches) simp_all
    have "\<not> (word_of_int (interlaced_line_offset q) :: u32) \<ge> ?h"
      using a lt offsets_small(1) [of q] by (simp add: u32_ge_int)
    with il full p(1) i(1) np
    have "flush_line ctx L fb
            = Inr (L\<lparr>interlaced_pass := q, current_pixel_idx := 0, current_line_idx := 1\<rparr>,
                   draw_line ctx (interlaced_line_offset q) fb)"
      by (simp add: flush_line_def)
    moreover have "row_written ctx r fb (draw_line ctx (interlaced_line_offset q) fb)"
      using a draw_line_row [of ctx r fb] unfolding r [symmetric] by blast
    ultimately show ?thesis by blast
  qed
  have fail: "flush_line ctx L fb = Inl ?e
              \<and> (\<exists>m. gif_decode_lzw m c0 ctxS fbS = Some (GIF_ERROR_DECODE, ?e, fb))"
    if a: "uint ?h \<le> ?y0
           \<and> (\<forall>s. p < s \<and> s \<le> 3 \<longrightarrow> uint ?h \<le> interlaced_line_offset s)
           \<and> decoder_at c0 ctxS fbS ctx0 L0 fb \<and> lzw_code L0 \<noteq> eoi_code L0
           \<and> GET_LZW_CODE c0 ctx0 L0 = (ctx1, L1)
           \<and> lzw_code L1 \<noteq> clear_code L1 \<and> lzw_code L1 \<noteq> eoi_code L1
           \<and> lzw_expand ctx1 L1 = (ctx, L)"
  proof -
    from a have "(word_of_int (snd (snd (interlace_next_pass ?h p i ?y0))) :: u32) \<ge> ?h"
      using y0 p(2) by (intro next_pass_exhausted) simp_all
    with il full p(1) i(1) have f: "flush_line ctx L fb = Inl ?e"
      by (simp add: flush_line_def case_prod_beta)
    from a have at: "decoder_at c0 ctxS fbS ctx0 L0 fb" and 1: "lzw_code L0 \<noteq> eoi_code L0"
      and 2: "GET_LZW_CODE c0 ctx0 L0 = (ctx1, L1)" and 3: "lzw_code L1 \<noteq> clear_code L1"
      and 4: "lzw_code L1 \<noteq> eoi_code L1" and 5: "lzw_expand ctx1 L1 = (ctx, L)"
      by blast+
    from f 5 have "lzw_step ctx1 L1 fb = Inl ?e"
      by (simp add: lzw_step_def)
    with 1 2 3 4 have "lzw_decode_loop (Suc 0) c0 ctx0 L0 fb = Some (GIF_ERROR_DECODE, ?e, fb)"
      by (simp del: lzw_decode_init.simps)
    from decoder_at_result [OF at this] f show ?thesis by blast
  qed
  from tables same adv fail show ?thesis
    by blast
qed


theorem interlace_rows_witness:
  "ucGIFBits interlaced_ctx AND 0x40 \<noteq> 0
   \<and> (word_of_int (current_pixel_idx (line_locals 0 0)) :: u32) \<ge> frame_width interlaced_ctx
   \<and> (\<exists>fb'. flush_line interlaced_ctx (line_locals 0 0) (\<lambda>_. 0)
                 = Inr ((line_locals 0 0)\<lparr>current_pixel_idx := 0, current_line_idx := 1\<rparr>, fb')
             \<and> row_written interlaced_ctx 0 (\<lambda>_. 0) fb'
             \<and> map fb' [0..<18]
                 = [255, 255, 255, 17, 34, 51, 0, 0, 0, 0, 0, 0, 0, 0, 0, 0, 0, 0])
   \<and> (\<exists>fb'. flush_line interlaced_ctx (line_locals 0 1) (\<lambda>_. 0)
                 = Inr ((line_locals 0 1)\<lparr>interlaced_pass := 2, current_pixel_idx := 0,
                                           current_line_idx := 1\<rparr>, fb')
             \<and> row_written interlaced_ctx 2 (\<lambda>_. 0) fb'
             \<and> map fb' [0..<18]
                 = [0, 0, 0, 0, 0, 0, 0, 0, 0, 0, 0, 0, 255, 255, 255, 17, 34, 51])
   \<and> (\<exists>ctx0 L0 ctx1 L1 ctx L fb.
         decoder_at 0 overrun_entry (\<lambda>_. 0) ctx0 L0 fb \<and> lzw_code L0 \<noteq> eoi_code L0
         \<and> GET_LZW_CODE 0 ctx0 L0 = (ctx1, L1)
         \<and> lzw_code L1 \<noteq> clear_code L1 \<and> lzw_code L1 \<noteq> eoi_code L1
         \<and> lzw_expand ctx1 L1 = (ctx, L)
         \<and> ucGIFBits ctx AND 0x40 \<noteq> 0
         \<and> frame_width ctx \<le> word_of_int (current_pixel_idx L)
         \<and> interlaced_pass L = 0 \<and> current_line_idx L = 1 \<and> frame_height ctx = 1
         \<and> flush_line ctx L fb
             = Inl (gif_report_error ctx GIF_ERROR_DECODE
                      ''Interlaced GIF decoding error: line out of bounds.'')
         \<and> (\<exists>m. gif_decode_lzw m 0 overrun_entry (\<lambda>_. 0)
                   = Some (GIF_ERROR_DECODE,
                           gif_report_error ctx GIF_ERROR_DECODE
                             ''Interlaced GIF decoding error: line out of bounds.'',
                           fb)))
   \<and> map_option (\<lambda>(rs, ctx, fb'). (rs, callback_log ctx, map fb' [0..<3]))
         (gif_calls 1 10 0 (gif_set_error_callback (open_gif overrun_gif) True) (\<lambda>_. 0) 0)
       = Some ([(- 1, 0)],
               [(GIF_ERROR_DECODE, ''Interlaced GIF decoding error: line out of bounds.''),
                (GIF_ERROR_DECODE, ''LZW decoding failed for frame.'')],
               [10, 20, 30])
   \<and> map_option (\<lambda>(rs, ctx, fb'). (rs, callback_log ctx, map fb' [0..<18]))
         (gif_calls 1 10 0 (gif_set_error_callback (open_gif interlaced_gif) True) (\<lambda>_. 0) 0)
       = Some ([(1, 0)], [],
               [10, 20, 30, 255, 255, 255, 255, 255, 255, 10, 20, 30, 17, 34, 51, 68, 85, 102])"
proof -
  have il: "ucGIFBits interlaced_ctx AND 0x40 \<noteq> 0"
    by (simp add: interlaced_ctx_def null_context_def)
  have full: "(word_of_int (current_pixel_idx (line_locals p i)) :: u32)
                \<ge> frame_width interlaced_ctx" for p i
    by (simp add: interlaced_ctx_def null_context_def line_locals_def word_le_nat_alt)
  have offs: "interlaced_line_offset 0 = 0" "interlaced_line_offset 1 = 4"
             "interlaced_line_offset 2 = 2" "interlaced_line_offset 3 = 1"
             "interlaced_line_stride 0 = 8" "interlaced_line_stride 3 = 2"
             "interlaced_line_offset (Suc 0) = 4"
    by (simp_all add: interlaced_line_offset_def interlaced_line_stride_def)
  have h: "uint (frame_height interlaced_ctx) = 3" "unat (frame_height interlaced_ctx) = 3"
          "unat (frame_y_off interlaced_ctx) = 0" "unat (canvas_width interlaced_ctx) = 2"
    by (simp_all add: interlaced_ctx_def null_context_def)
  have mid: "\<forall>s. (0::nat) < s \<and> s < 2 \<longrightarrow> uint (frame_height interlaced_ctx)
               \<le> interlaced_line_offset s"
  proof (intro allI impI)
    fix s :: nat assume "0 < s \<and> s < 2"
    then have "s = 1" by arith
    then show "uint (frame_height interlaced_ctx) \<le> interlaced_line_offset s"
      by (simp add: h offs)
  qed
  have e0: "(case flush_line interlaced_ctx (line_locals 0 0) (\<lambda>_. 0) of
              Inl e \<Rightarrow> [] | Inr (L', fb') \<Rightarrow> map fb' [0..<18])
            = [255, 255, 255, 17, 34, 51, 0, 0, 0, 0, 0, 0, 0, 0, 0, 0, 0, 0]"
    by (simp add: run_eval interlaced_ctx_def line_locals_def
             cong: let_weak_cong prod.case_cong_weak)
  have e1: "(case flush_line interlaced_ctx (line_locals 0 1) (\<lambda>_. 0) of
              Inl e \<Rightarrow> [] | Inr (L', fb') \<Rightarrow> map fb' [0..<18])
            = [0, 0, 0, 0, 0, 0, 0, 0, 0, 0, 0, 0, 255, 255, 255, 17, 34, 51]"
    by (simp add: run_eval interlaced_ctx_def line_locals_def
             cong: let_weak_cong prod.case_cong_weak)
  from interlace_rows [where ctx = interlaced_ctx and L = "line_locals 0 0" and p = 0
                         and i = 0 and r = 0 and fb = "\<lambda>_. 0", OF il full]
  have "\<exists>fb'. flush_line interlaced_ctx (line_locals 0 0) (\<lambda>_. 0)
                 = Inr ((line_locals 0 0)\<lparr>current_pixel_idx := 0, current_line_idx := 1\<rparr>, fb')
             \<and> row_written interlaced_ctx 0 (\<lambda>_. 0) fb'"
    by (simp add: line_locals_def h offs)
  with e0 have w0: "\<exists>fb'. flush_line interlaced_ctx (line_locals 0 0) (\<lambda>_. 0)
                 = Inr ((line_locals 0 0)\<lparr>current_pixel_idx := 0, current_line_idx := 1\<rparr>, fb')
             \<and> row_written interlaced_ctx 0 (\<lambda>_. 0) fb'
             \<and> map fb' [0..<18]
                 = [255, 255, 255, 17, 34, 51, 0, 0, 0, 0, 0, 0, 0, 0, 0, 0, 0, 0]"
    by auto
  from interlace_rows [where ctx = interlaced_ctx and L = "line_locals 0 1" and p = 0
                         and i = 1 and q = 2 and r = 2 and fb = "\<lambda>_. 0", OF il full] mid
  have "\<exists>fb'. flush_line interlaced_ctx (line_locals 0 1) (\<lambda>_. 0)
                 = Inr ((line_locals 0 1)\<lparr>interlaced_pass := 2, current_pixel_idx := 0,
                                           current_line_idx := 1\<rparr>, fb')
             \<and> row_written interlaced_ctx 2 (\<lambda>_. 0) fb'"
    by (simp add: line_locals_def h offs)
  with e1 have w1: "\<exists>fb'. flush_line interlaced_ctx (line_locals 0 1) (\<lambda>_. 0)
                 = Inr ((line_locals 0 1)\<lparr>interlaced_pass := 2, current_pixel_idx := 0,
                                           current_line_idx := 1\<rparr>, fb')
             \<and> row_written interlaced_ctx 2 (\<lambda>_. 0) fb'
             \<and> map fb' [0..<18]
                 = [0, 0, 0, 0, 0, 0, 0, 0, 0, 0, 0, 0, 255, 255, 255, 17, 34, 51]"
    by auto
  let ?S = "overrun_entry\<lparr>lzw_read_offset := 0, lzw_data_size := 0, lzw_end_of_frame := 0\<rparr>"
  obtain ok c2 where g: "gif_get_more_lzw_data 0 ?S = (ok, c2)"
    by (cases "gif_get_more_lzw_data 0 ?S")
  obtain c3 L3 where en: "lzw_entry c2 = (c3, L3)" by (cases "lzw_entry c2")
  from overrun_run g en have ok: "ok"
    and r1: "case lzw_first_code 0 c3 L3 of
              Some (Inr (cA, LA)) \<Rightarrow> lzw_code LA \<noteq> eoi_code LA \<and>
                (case GET_LZW_CODE 0 cA LA of (cB1, LB1) \<Rightarrow>
                   lzw_code LB1 \<noteq> clear_code LB1 \<and> lzw_code LB1 \<noteq> eoi_code LB1 \<and>
                   (case lzw_step cB1 LB1 (\<lambda>_. 0) of
                      Inr (cB, LB, fbB) \<Rightarrow> lzw_code LB \<noteq> eoi_code LB \<and>
                        (case GET_LZW_CODE 0 cB LB of (c1, L1) \<Rightarrow>
                           lzw_code L1 \<noteq> clear_code L1 \<and> lzw_code L1 \<noteq> eoi_code L1 \<and>
                           (case lzw_expand c1 L1 of (c, L) \<Rightarrow>
                              ucGIFBits c AND 0x40 \<noteq> 0
                              \<and> frame_width c \<le> word_of_int (current_pixel_idx L)
                              \<and> interlaced_pass L = 0 \<and> current_line_idx L = 1
                              \<and> frame_height c = 1))
                    | Inl e \<Rightarrow> False))
            | _ \<Rightarrow> False"
    by simp_all
  from r1 obtain cA LA where fc: "lzw_first_code 0 c3 L3 = Some (Inr (cA, LA))"
    by (auto split: option.splits sum.splits)
  obtain cB1 LB1 where gB: "GET_LZW_CODE 0 cA LA = (cB1, LB1)"
    by (cases "GET_LZW_CODE 0 cA LA")
  from r1 fc gB have a1: "lzw_code LA \<noteq> eoi_code LA" "lzw_code LB1 \<noteq> clear_code LB1"
      "lzw_code LB1 \<noteq> eoi_code LB1"
    and r2: "case lzw_step cB1 LB1 (\<lambda>_. 0) of
               Inr (cB, LB, fbB) \<Rightarrow> lzw_code LB \<noteq> eoi_code LB \<and>
                 (case GET_LZW_CODE 0 cB LB of (c1, L1) \<Rightarrow>
                    lzw_code L1 \<noteq> clear_code L1 \<and> lzw_code L1 \<noteq> eoi_code L1 \<and>
                    (case lzw_expand c1 L1 of (c, L) \<Rightarrow>
                       ucGIFBits c AND 0x40 \<noteq> 0
                       \<and> frame_width c \<le> word_of_int (current_pixel_idx L)
                       \<and> interlaced_pass L = 0 \<and> current_line_idx L = 1
                       \<and> frame_height c = 1))
             | Inl e \<Rightarrow> False"
    by simp_all
  from r2 obtain cB LB fbB where st: "lzw_step cB1 LB1 (\<lambda>_. 0) = Inr (cB, LB, fbB)"
    by (auto split: sum.splits)
  obtain c1 L1 where g1: "GET_LZW_CODE 0 cB LB = (c1, L1)"
    by (cases "GET_LZW_CODE 0 cB LB")
  obtain c L where ex: "lzw_expand c1 L1 = (c, L)" by (cases "lzw_expand c1 L1")
  from r2 st g1 ex have a2: "lzw_code LB \<noteq> eoi_code LB" "lzw_code L1 \<noteq> clear_code L1"
      "lzw_code L1 \<noteq> eoi_code L1" "ucGIFBits c AND 0x40 \<noteq> 0"
      "frame_width c \<le> word_of_int (current_pixel_idx L)"
      "interlaced_pass L = 0" "current_line_idx L = 1" "frame_height c = 1"
    by simp_all
  have atA: "decoder_at 0 overrun_entry (\<lambda>_. 0) cA LA (\<lambda>_. 0)"
    using g ok en fc by (intro decoder_at.first [of 0 overrun_entry c2 c3 L3]) simp_all
  have atB: "decoder_at 0 overrun_entry (\<lambda>_. 0) cB LB fbB"
    using atA a1(1) gB a1(2,3) st by (rule decoder_at.code)
  have none: "\<forall>s. (0::nat) < s \<and> s \<le> 3 \<longrightarrow> uint (frame_height c) \<le> interlaced_line_offset s"
  proof (intro allI impI)
    fix s :: nat assume "0 < s \<and> s \<le> 3"
    then have "s = 1 \<or> s = 2 \<or> s = 3" by arith
    then show "uint (frame_height c) \<le> interlaced_line_offset s"
      by (auto simp: a2 offs)
  qed
  from interlace_rows [where ctx = c and L = L and p = 0 and i = 1 and ?c0.0 = 0
                         and ctxS = overrun_entry and fbS = "\<lambda>_. 0" and ?ctx0.0 = cB
                         and ?L0.0 = LB and fb = fbB and ?ctx1.0 = c1 and ?L1.0 = L1,
                       OF a2(4) a2(5) a2(6) _ a2(7)]
       none atB a2 g1 ex
  have f: "flush_line c L fbB
             = Inl (gif_report_error c GIF_ERROR_DECODE
                      ''Interlaced GIF decoding error: line out of bounds.'')
         \<and> (\<exists>m. gif_decode_lzw m 0 overrun_entry (\<lambda>_. 0)
                   = Some (GIF_ERROR_DECODE,
                           gif_report_error c GIF_ERROR_DECODE
                             ''Interlaced GIF decoding error: line out of bounds.'',
                           fbB))"
    by (simp add: offs)
  have w2: "\<exists>ctx0 L0 ctx1 L1 ctx L fb.
         decoder_at 0 overrun_entry (\<lambda>_. 0) ctx0 L0 fb \<and> lzw_code L0 \<noteq> eoi_code L0
         \<and> GET_LZW_CODE 0 ctx0 L0 = (ctx1, L1)
         \<and> lzw_code L1 \<noteq> clear_code L1 \<and> lzw_code L1 \<noteq> eoi_code L1
         \<and> lzw_expand ctx1 L1 = (ctx, L)
         \<and> ucGIFBits ctx AND 0x40 \<noteq> 0
         \<and> frame_width ctx \<le> word_of_int (current_pixel_idx L)
         \<and> interlaced_pass L = 0 \<and> current_line_idx L = 1 \<and> frame_height ctx = 1
         \<and> flush_line ctx L fb
             = Inl (gif_report_error ctx GIF_ERROR_DECODE
                      ''Interlaced GIF decoding error: line out of bounds.'')
         \<and> (\<exists>m. gif_decode_lzw m 0 overrun_entry (\<lambda>_. 0)
                   = Some (GIF_ERROR_DECODE,
                           gif_report_error ctx GIF_ERROR_DECODE
                             ''Interlaced GIF decoding error: line out of bounds.'',
                           fb))"
    using atB a2 g1 ex f by blast
  from il full [of 0 0] w0 w1 w2 overrun_call interlaced_run show ?thesis
    by blast
qed

section \<open>Cursor invariant\<close>

text \<open>
  Claim C9. In every context that \<^verbatim>\<open>gif_init\<close> accepted and that the API calls
  have worked on since, \<^verbatim>\<open>current_pos \<le> gif_size\<close>. On a context with the cursor
  within the input, reading a byte advances the cursor by one if a byte is left and
  not at all otherwise; reading \<open>len\<close> bytes returns and advances by the number of
  bytes left, at most \<open>len\<close>; skipping \<open>len\<close> bytes (the two bytes behind each 16-bit
  read among them) moves the cursor to the end of the input at most, and has no
  failure result.
\<close>

theorem cursor_within_input:
  "(reachable ctx \<longrightarrow> current_pos ctx \<le> gif_size ctx)
   \<and> (current_pos ctx \<le> gif_size ctx \<longrightarrow>
        current_pos (snd (gif_read_byte_internal ctx))
          = current_pos ctx + (if current_pos ctx < gif_size ctx then 1 else 0)
        \<and> current_pos (snd (gif_read_byte_internal ctx)) \<le> gif_size ctx
        \<and> fst (gif_read_bytes_internal ctx buf off len)
            = min len (gif_size ctx - current_pos ctx)
        \<and> current_pos (fst (snd (gif_read_bytes_internal ctx buf off len)))
            = current_pos ctx + fst (gif_read_bytes_internal ctx buf off len)
        \<and> current_pos (fst (snd (gif_read_bytes_internal ctx buf off len))) \<le> gif_size ctx
        \<and> current_pos (gif_skip_bytes_internal ctx len)
            = min (current_pos ctx + len) (gif_size ctx)
        \<and> current_pos (gif_skip_bytes_internal ctx 2) \<le> gif_size ctx)"
proof (intro conjI impI)
  assume "reachable ctx"
  then show "current_pos ctx \<le> gif_size ctx"
    using reachable_cursor [of ctx] by (simp add: cursor_ok_def)
qed (auto simp: gif_read_byte_internal_def gif_read_bytes_internal_def
                gif_skip_bytes_internal_def Let_def min_def)

theorem cursor_within_input_witness:
  "reachable (open_gif minimal_gif)
   \<and> current_pos (open_gif minimal_gif) \<le> gif_size (open_gif minimal_gif)
   \<and> current_pos (snd (gif_read_byte_internal (open_gif minimal_gif))) = 20
   \<and> fst (gif_read_bytes_internal (open_gif minimal_gif) (\<lambda>_. 0) 0 768) = 16
   \<and> current_pos (fst (snd (gif_read_bytes_internal (open_gif minimal_gif) (\<lambda>_. 0) 0 768)))
       = 35
   \<and> current_pos (gif_skip_bytes_internal (open_gif minimal_gif) 100) = 35"
proof -
  have "fst (gif_init null_context (bytes_of minimal_gif) (length minimal_gif) (\<lambda>_. 0)
               GIF_SCRATCH_BUFFER_REQUIRED_SIZE) = GIF_SUCCESS"
    by (simp add: init_eval minimal_gif_def)
  then have "gif_init null_context (bytes_of minimal_gif) (length minimal_gif) (\<lambda>_. 0)
               GIF_SCRATCH_BUFFER_REQUIRED_SIZE = (GIF_SUCCESS, open_gif minimal_gif)"
    by (simp add: open_gif_def prod_eq_iff)
  then have r: "reachable (open_gif minimal_gif)"
    by (rule reachable.init)
  have pos: "current_pos (open_gif minimal_gif) = 19" "gif_size (open_gif minimal_gif) = 35"
    by (simp_all add: open_minimal)
  from cursor_within_input [of "open_gif minimal_gif" "\<lambda>_. 0" 0 768]
       cursor_within_input [of "open_gif minimal_gif" "\<lambda>_. 0" 0 100] r pos
  show ?thesis
    by simp
qed

section \<open>Stream reader: reads at the end of the input\<close>

text \<open>
  Claim C10. When a single byte is requested at or beyond the end of the input,
  \<^verbatim>\<open>gif_read_byte_internal\<close> returns the byte 0 and leaves the cursor where it is;
  the only other effect is the call of \<^verbatim>\<open>gif_report_error\<close> with
  \<^verbatim>\<open>GIF_ERROR_EARLY_EOF\<close>, which reaches the callback when one is installed.
  The caller gets the value 0 and no failure indication.
\<close>

theorem read_byte_past_end:
  "gif_size ctx \<le> current_pos ctx \<Longrightarrow>
     fst (gif_read_byte_internal ctx) = 0
     \<and> current_pos (snd (gif_read_byte_internal ctx)) = current_pos ctx
     \<and> snd (gif_read_byte_internal ctx)
         = gif_report_error ctx GIF_ERROR_EARLY_EOF ''Unexpected EOF while reading byte.''
     \<and> (error_callback ctx \<longrightarrow>
          callback_log (snd (gif_read_byte_internal ctx))
            = callback_log ctx
              @ [(GIF_ERROR_EARLY_EOF, ''Unexpected EOF while reading byte.'')])"
  by (simp add: gif_read_byte_internal_def gif_report_error_def)

theorem read_byte_past_end_witness:
  "gif_size (null_context\<lparr>error_callback := True\<rparr>)
     \<le> current_pos (null_context\<lparr>error_callback := True\<rparr>)
   \<and> error_callback (null_context\<lparr>error_callback := True\<rparr>)
   \<and> fst (gif_read_byte_internal (null_context\<lparr>error_callback := True\<rparr>)) = 0
   \<and> current_pos (snd (gif_read_byte_internal (null_context\<lparr>error_callback := True\<rparr>))) = 0
   \<and> callback_log (snd (gif_read_byte_internal (null_context\<lparr>error_callback := True\<rparr>)))
       = [(GIF_ERROR_EARLY_EOF, ''Unexpected EOF while reading byte.'')]"
proof -
  have h: "gif_size (null_context\<lparr>error_callback := True\<rparr>)
             \<le> current_pos (null_context\<lparr>error_callback := True\<rparr>)"
    by (simp add: null_context_def)
  show ?thesis
    using h read_byte_past_end [OF h]
    by (simp add: null_context_def gif_report_error_def)
qed

section \<open>Playback of a file without a loop extension\<close>

text \<open>
  Claim C3, as the code has it. On the minimal static GIF (1 by 1, GIF89a, no
  NETSCAPE extension) the first call of \<^verbatim>\<open>gif_next_frame\<close> returns 1 with
  \<^verbatim>\<open>delay_ms = 0\<close>, and so does the second: \<^verbatim>\<open>loop_count\<close> keeps the value
  -1 that \<^verbatim>\<open>gif_init\<close> gives it, so the trailer rewinds the stream and the frame is
  decoded again. This holds for every fuel from 3 on, every frame buffer and every
  initial value of the refill's local.
\<close>

theorem minimal_gif_replays:
  "map_option (\<lambda>(rs, ctx, fb'). (rs, loop_count ctx, current_pos ctx))
     (gif_calls 2 (Suc (Suc (Suc n))) c0 (open_gif minimal_gif) fb d)
   = Some ([(1, 0), (1, 0)], - 1, 34)"
  apply (simp only: open_minimal)
  apply (simp add: run_eval minimal_gif_def cong: let_weak_cong prod.case_cong_weak)
  done

text \<open>
  Claim C3 as stated fails: the return values of the first two calls on the minimal
  static GIF are not 1 and then 0.
\<close>

theorem minimal_gif_second_call_counterexample:
  "map_option (\<lambda>(rs, ctx, fb'). map fst rs)
     (gif_calls 2 10 0 (open_gif minimal_gif) (\<lambda>_. 0) 0) \<noteq> Some [1, 0]"
  apply (simp only: open_minimal)
  apply (simp add: run_eval minimal_gif_def cong: let_weak_cong prod.case_cong_weak)
  done

section \<open>Malformed and short LZW streams\<close>

text \<open>
  Claim C1, evaluated on a frame whose second code, 7, is above the next free code 6
  and names an entry that was never set. With an error callback installed,
  \<^verbatim>\<open>gif_next_frame\<close> returns 1, reports nothing, and has drawn the second pixel
  from whatever \<^verbatim>\<open>lzw_pixels[7]\<close> held in the scratch region (0 here, so colour 0
  of the palette): no \<^verbatim>\<open>GIF_ERROR_DECODE\<close>.
\<close>

theorem bad_code_accepted:
  "map_option (\<lambda>(rs, ctx, fb'). (rs, callback_log ctx, map fb' [0..<6]))
     (gif_calls 1 (Suc (Suc (Suc (Suc n)))) c0
        (gif_set_error_callback (open_gif bad_code_gif) True) (\<lambda>_. 0) d)
   = Some ([(1, 0)], [], [10, 20, 30, 10, 20, 30])"
  apply (simp only: open_bad_code)
  apply (simp add: run_eval bad_code_gif_def cong: let_weak_cong prod.case_cong_weak)
  done

text \<open>
  Claim C2 as stated fails: the LZW stream of this 2 by 2 frame ends with the END code
  after one pixel, and \<^verbatim>\<open>gif_next_frame\<close> returns 1 and reports no error (the
  canvas is left as it was).
\<close>

theorem short_stream_counterexample:
  "map_option (\<lambda>(rs, ctx, fb'). (rs, callback_log ctx, map fb' [0..<12]))
     (gif_calls 1 10 0 (gif_set_error_callback (open_gif short_lzw_gif) True) (\<lambda>_. 0) 0)
   = Some ([(1, 0)], [], [0, 0, 0, 0, 0, 0, 0, 0, 0, 0, 0, 0])"
  apply (simp only: open_short)
  apply (simp add: run_eval short_lzw_gif_def cong: let_weak_cong prod.case_cong_weak)
  done

text \<open>
  Claim C2, as the code has it. When the first sub-block of a frame's LZW data is cut
  short by the end of the input, \<^verbatim>\<open>gif_decode_lzw\<close> returns
  \<^verbatim>\<open>GIF_ERROR_EARLY_EOF\<close> and \<^verbatim>\<open>gif_next_frame\<close> returns -1, with the frame buffer
  and \<^verbatim>\<open>*delay_ms\<close> as they were. When the END code is pulled, the decoder returns
  \<^verbatim>\<open>GIF_SUCCESS\<close> in the state it is in: the number of pixels emitted is not looked
  at.
\<close>

theorem lzw_stream_end:
  "(current_pos ctx < gif_size ctx \<and> gif_data ctx (current_pos ctx) \<noteq> 0
      \<and> gif_size ctx < current_pos ctx + 1 + unat (gif_data ctx (current_pos ctx))
      \<longrightarrow> (case gif_decode_lzw fuel c0 ctx fb of
              None \<Rightarrow> False
            | Some (e, ctx', fb') \<Rightarrow> e = GIF_ERROR_EARLY_EOF \<and> fb' = fb))
   \<and> (current_pos ctx + 1 < gif_size ctx \<and> gif_data ctx (current_pos ctx + 1) \<noteq> 0
      \<and> gif_size ctx < current_pos ctx + 2 + unat (gif_data ctx (current_pos ctx + 1))
      \<longrightarrow> (case gif_next_frame_lzw fuel c0 ctx fb d of
              None \<Rightarrow> False
            | Some (r, ctx', fb', d') \<Rightarrow> r = - 1 \<and> fb' = fb \<and> d' = d))
   \<and> (lzw_code L \<noteq> eoi_code L \<and> GET_LZW_CODE c0 ctx0 L = (ctx1, L1)
      \<and> lzw_code L1 = eoi_code L1 \<and> lzw_code L1 \<noteq> clear_code L1
      \<longrightarrow> lzw_decode_loop (Suc (Suc n)) c0 ctx0 L fb = Some (GIF_SUCCESS, ctx1, fb))"
proof (intro conjI impI)
  assume a: "current_pos ctx < gif_size ctx \<and> gif_data ctx (current_pos ctx) \<noteq> 0
      \<and> gif_size ctx < current_pos ctx + 1 + unat (gif_data ctx (current_pos ctx))"
  then have "fst (gif_get_more_lzw_data c0
                (ctx\<lparr>lzw_read_offset := 0, lzw_data_size := 0, lzw_end_of_frame := 0\<rparr>))
           = False"
    by (intro first_block_cut_short) simp_all
  then show "case gif_decode_lzw fuel c0 ctx fb of
              None \<Rightarrow> False
            | Some (e, ctx', fb') \<Rightarrow> e = GIF_ERROR_EARLY_EOF \<and> fb' = fb"
    by (simp add: gif_decode_lzw_def case_prod_beta)
next
  assume a: "current_pos ctx + 1 < gif_size ctx \<and> gif_data ctx (current_pos ctx + 1) \<noteq> 0
      \<and> gif_size ctx < current_pos ctx + 2 + unat (gif_data ctx (current_pos ctx + 1))"
  let ?c2 = "(snd (gif_read_byte_internal ctx))\<lparr>lzw_code_start_size :=
               fst (gif_read_byte_internal ctx)\<rparr>"
  have c2: "current_pos ?c2 = current_pos ctx + 1" "gif_size ?c2 = gif_size ctx"
           "gif_data ?c2 = gif_data ctx"
    using a by (simp_all add: gif_read_byte_internal_def)
  have "fst (gif_get_more_lzw_data c0
                (?c2\<lparr>lzw_read_offset := 0, lzw_data_size := 0, lzw_end_of_frame := 0\<rparr>))
           = False"
    using a c2 by (intro first_block_cut_short) simp_all
  then show "case gif_next_frame_lzw fuel c0 ctx fb d of
              None \<Rightarrow> False
            | Some (r, ctx', fb', d') \<Rightarrow> r = - 1 \<and> fb' = fb \<and> d' = d"
    by (simp add: gif_next_frame_lzw_def gif_decode_lzw_def case_prod_beta Let_def)
next
  assume a: "lzw_code L \<noteq> eoi_code L \<and> GET_LZW_CODE c0 ctx0 L = (ctx1, L1)
      \<and> lzw_code L1 = eoi_code L1 \<and> lzw_code L1 \<noteq> clear_code L1"
  then have 1: "lzw_code L \<noteq> eoi_code L" and 2: "GET_LZW_CODE c0 ctx0 L = (ctx1, L1)"
        and 3: "lzw_code L1 = eoi_code L1" and 4: "lzw_code L1 \<noteq> clear_code L1"
    by blast+
  have "lzw_decode_loop (Suc n) c0 ctx1 L1 fb = Some (GIF_SUCCESS, ctx1, fb)"
    using 3 by simp
  with 1 2 3 4 show "lzw_decode_loop (Suc (Suc n)) c0 ctx0 L fb = Some (GIF_SUCCESS, ctx1, fb)"
    by (simp del: lzw_decode_init.simps)
qed

theorem lzw_stream_end_witness:
  "gif_data (open_gif truncated_gif) 36 = 5 \<and> gif_size (open_gif truncated_gif) = 39
   \<and> (case gif_decode_lzw 10 0 ((open_gif truncated_gif)\<lparr>current_pos := 36\<rparr>) (\<lambda>_. 0) of
         None \<Rightarrow> False | Some (e, ctx', fb') \<Rightarrow> e = GIF_ERROR_EARLY_EOF \<and> fb' = (\<lambda>_. 0))
   \<and> (case gif_next_frame_lzw 10 0 ((open_gif truncated_gif)\<lparr>current_pos := 35\<rparr>) (\<lambda>_. 0) 55 of
         None \<Rightarrow> False
       | Some (r, ctx', fb', d') \<Rightarrow> r = - 1 \<and> fb' = (\<lambda>_. 0) \<and> d' = 55)
   \<and> GET_LZW_CODE 0 null_context (line_locals 0 0)
       = (null_context, (line_locals 0 0)\<lparr>lzw_code := 5, bitnum := 3\<rparr>)
   \<and> lzw_decode_loop 2 0 null_context (line_locals 0 0) (\<lambda>_. 0)
       = Some (GIF_SUCCESS, null_context, (\<lambda>_. 0))"
proof -
  let ?a = "(open_gif truncated_gif)\<lparr>current_pos := 36\<rparr>"
  let ?b = "(open_gif truncated_gif)\<lparr>current_pos := 35\<rparr>"
  have g: "GET_LZW_CODE 0 null_context (line_locals 0 0)
             = (null_context, (line_locals 0 0)\<lparr>lzw_code := 5, bitnum := 3\<rparr>)"
    by (simp add: GET_LZW_CODE_def line_locals_def)
  have two: "Suc (Suc 0) = 2" by simp
  from lzw_stream_end [where ctx = ?a and fuel = 10 and ?c0.0 = 0 and fb = "\<lambda>_. 0" and d = 0
                          and L = "line_locals 0 0" and ?ctx0.0 = null_context
                          and ?ctx1.0 = null_context
                          and ?L1.0 = "(line_locals 0 0)\<lparr>lzw_code := 5, bitnum := 3\<rparr>"
                          and n = 0]
       lzw_stream_end [where ctx = ?b and fuel = 10 and ?c0.0 = 0 and fb = "\<lambda>_. 0" and d = 55
                          and L = "line_locals 0 0" and ?ctx0.0 = null_context
                          and ?ctx1.0 = null_context
                          and ?L1.0 = "(line_locals 0 0)\<lparr>lzw_code := 5, bitnum := 3\<rparr>"
                          and n = 0] g
  show ?thesis
    unfolding two
    apply (simp only: open_truncated)
    apply (simp add: null_context_def store_eval truncated_gif_def gif_header_def
             line_locals_def)
    done
qed

section \<open>Line flushes\<close>

text \<open>
  Claim C7, evaluated on a 2 by 3 frame with the pixels 0 0 / 1 0 / 0 1. When code 6
  (two pixels) is expanded the line buffer holds one pixel, so it then holds three:
  one line of two is flushed and the buffer is emptied, which drops the third pixel.
  The last row of the canvas is never written (it keeps its zeros), although
  \<^verbatim>\<open>gif_next_frame\<close> returns 1 and reports nothing.
\<close>

theorem straddling_expansion_loses_pixel:
  "map_option (\<lambda>(rs, ctx, fb'). (rs, callback_log ctx, map fb' [0..<18]))
     (gif_calls 1 (Suc (Suc (Suc (Suc (Suc (Suc (Suc n))))))) c0
        (gif_set_error_callback (open_gif straddle_gif) True) (\<lambda>_. 0) d)
   = Some ([(1, 0)], [],
           [10, 20, 30, 10, 20, 30, 255, 255, 255, 10, 20, 30, 0, 0, 0, 0, 0, 0])"
  apply (simp only: open_straddle)
  apply (simp add: run_eval straddle_gif_def cong: let_weak_cong prod.case_cong_weak)
  done

section \<open>Graphic-control state across frames\<close>

text \<open>
  Claim C4 as stated fails: the second image of this file has no graphic-control
  extension before it, yet after the second call the context still holds disposal
  method 2 and transparency on, and the frame was drawn with them: its first pixel has
  the transparent index 0 and received the background colour (255, 255, 255), not
  colour 0 of the palette (10, 20, 30).
\<close>

theorem gce_carried_over_counterexample:
  "map_option (\<lambda>(rs, ctx, fb').
       (rs, disposal_method ctx, has_transparency ctx, transparent_index ctx, map fb' [0..<6]))
     (gif_calls 2 10 0 (open_gif two_frames_gif) (\<lambda>_. 0) 0)
   = Some ([(1, 0), (1, 0)], 2, 1, 0, [255, 255, 255, 255, 255, 255])"
  apply (simp only: open_two_frames)
  apply (simp add: run_eval two_frames_gif_def cong: let_weak_cong prod.case_cong_weak)
  done

text \<open>
  Claim C4, as the code has it. Nothing resets the graphic-control state between
  frames. When the cursor stands on an image descriptor, \<^verbatim>\<open>gif_next_frame\<close> goes
  straight to the image part with only the cursor moved, and the frame is decoded with
  the \<^verbatim>\<open>disposal_method\<close>, \<^verbatim>\<open>has_transparency\<close>, \<^verbatim>\<open>transparent_index\<close> and
  \<^verbatim>\<open>frame_delay_ms\<close> that the context held on entry, which the call also leaves in
  place. They are 0 only as long as no graphic-control extension has been read since
  \<^verbatim>\<open>gif_init\<close>, which zeroes them.
\<close>

theorem gce_state_persists:
  assumes pos: "current_pos ctx < gif_size ctx"
      and img: "gif_data ctx (current_pos ctx) = 0x2C"
  shows "gif_next_frame (Suc n) c0 ctx fb d
           = gif_next_frame_image (Suc n) c0 (ctx\<lparr>current_pos := current_pos ctx + 1\<rparr>) fb d
       \<and> (case gif_next_frame (Suc n) c0 ctx fb d of
             None \<Rightarrow> True
           | Some (r, ctx', fb', d') \<Rightarrow>
               disposal_method ctx' = disposal_method ctx
               \<and> has_transparency ctx' = has_transparency ctx
               \<and> transparent_index ctx' = transparent_index ctx
               \<and> frame_delay_ms ctx' = frame_delay_ms ctx)
       \<and> (gif_init ctx0 data sz scratch ssz = (GIF_SUCCESS, c)
            \<longrightarrow> disposal_method c = 0 \<and> has_transparency c = 0)"
proof -
  let ?c1 = "ctx\<lparr>current_pos := current_pos ctx + 1\<rparr>"
  have eq: "gif_next_frame (Suc n) c0 ctx fb d = gif_next_frame_image (Suc n) c0 ?c1 fb d"
    using pos scan_at_image [OF pos img, of n]
    by (simp add: gif_next_frame_def gif_next_frame_restart_def)
  have "case gif_next_frame_image (Suc n) c0 ?c1 fb d of
          None \<Rightarrow> True
        | Some (r, ctx', fb', d') \<Rightarrow>
            disposal_method ctx' = disposal_method ctx
            \<and> has_transparency ctx' = has_transparency ctx
            \<and> transparent_index ctx' = transparent_index ctx
            \<and> frame_delay_ms ctx' = frame_delay_ms ctx"
  proof (cases "gif_next_frame_image (Suc n) c0 ?c1 fb d")
    case None
    then show ?thesis by simp
  next
    case (Some res)
    obtain r ctx' fb' d' where res: "res = (r, ctx', fb', d')" by (cases res)
    from kept_frame_image [of "Suc n" c0 ?c1 fb d r ctx' fb' d'] Some res
    have "kept ?c1 ctx'" by simp
    with Some res show ?thesis by (simp add: kept_def)
  qed
  with eq init_gce_zero [of ctx0 data sz scratch ssz c] show ?thesis
    by simp
qed

theorem gce_state_persists_witness:
  "current_pos (after_calls (Suc 0) two_frames_gif) < gif_size (after_calls (Suc 0) two_frames_gif)
   \<and> gif_data (after_calls (Suc 0) two_frames_gif) (current_pos (after_calls (Suc 0) two_frames_gif)) = 0x2C
   \<and> disposal_method (after_calls (Suc 0) two_frames_gif) = 2
   \<and> has_transparency (after_calls (Suc 0) two_frames_gif) = 1
   \<and> (case gif_next_frame 10 0 (after_calls (Suc 0) two_frames_gif) (\<lambda>_. 0) 0 of
         None \<Rightarrow> False
       | Some (r, ctx', fb', d') \<Rightarrow>
           r = 1 \<and> disposal_method ctx' = 2 \<and> has_transparency ctx' = 1)
   \<and> disposal_method (open_gif two_frames_gif) = 0"
proof -
  have st: "(case gif_calls (Suc 0) 10 0 (open_gif two_frames_gif) (\<lambda>_. 0) 0 of
               None \<Rightarrow> None
             | Some (rs, ctx, fb) \<Rightarrow>
                 Some (current_pos ctx, gif_size ctx, gif_data ctx 48, disposal_method ctx,
                       has_transparency ctx))
            = Some (48, 64, 0x2C, 2, 1)"
    apply (simp only: open_two_frames)
    apply (simp add: run_eval two_frames_gif_def cong: let_weak_cong prod.case_cong_weak)
    done
  then have f: "current_pos (after_calls (Suc 0) two_frames_gif) = 48"
               "gif_size (after_calls (Suc 0) two_frames_gif) = 64"
               "gif_data (after_calls (Suc 0) two_frames_gif) 48 = 0x2C"
               "disposal_method (after_calls (Suc 0) two_frames_gif) = 2"
               "has_transparency (after_calls (Suc 0) two_frames_gif) = 1"
    by (auto simp: after_calls_def split: option.splits)
  have h1: "current_pos (after_calls (Suc 0) two_frames_gif) < gif_size (after_calls (Suc 0) two_frames_gif)"
    by (simp add: f)
  have h2: "gif_data (after_calls (Suc 0) two_frames_gif) (current_pos (after_calls (Suc 0) two_frames_gif))
              = 0x2C"
    by (simp add: f)
  have nf: "(case gif_next_frame 10 0 (after_calls (Suc 0) two_frames_gif) (\<lambda>_. 0) 0 of
               None \<Rightarrow> None | Some (r, ctx', fb', d') \<Rightarrow> Some r) = Some 1"
    unfolding after_calls_def
    apply (simp only: open_two_frames)
    apply (simp add: run_eval two_frames_gif_def cong: let_weak_cong prod.case_cong_weak)
    done
  have i0: "gif_init null_context (bytes_of two_frames_gif) (length two_frames_gif) (\<lambda>_. 0)
              GIF_SCRATCH_BUFFER_REQUIRED_SIZE = (GIF_SUCCESS, open_gif two_frames_gif)"
    by (simp add: open_gif_def prod_eq_iff)
       (simp add: init_eval two_frames_gif_def)
  from gce_state_persists [OF h1 h2, of 9 0 "\<lambda>_. 0" 0 null_context "bytes_of two_frames_gif"
         "length two_frames_gif" "\<lambda>_. 0" GIF_SCRATCH_BUFFER_REQUIRED_SIZE
         "open_gif two_frames_gif"] nf i0 f h1 h2
  show ?thesis
    by (auto split: option.splits)
qed


section \<open>Loop count\<close>

text \<open>
  Claim C5 as stated fails: with a stored loop count of 0 the animation is not played
  for ever. The first call returns 1 and the second returns 0 at the trailer.
\<close>

theorem stored_zero_plays_once_counterexample:
  "map_option (\<lambda>(rs, ctx, fb'). (rs, loop_count ctx))
     (gif_calls 2 10 0 (open_gif (loop_gif 0)) (\<lambda>_. 0) 0)
   = Some ([(1, 0), (0, 0)], 0)"
  apply (simp only: open_loop)
  apply (simp add: run_eval loop_gif_def cong: let_weak_cong prod.case_cong_weak)
  done

text \<open>
  Claim C5, as the code has it. The application extension stores the 16-bit value of
  the file in \<^verbatim>\<open>loop_count\<close> as it is. At the trailer a \<^verbatim>\<open>loop_count\<close> of 0 makes
  \<^verbatim>\<open>gif_next_frame\<close> return 0, so a stored 0 plays the animation once; a positive
  \<^verbatim>\<open>loop_count\<close> is decremented and the stream is rewound to the first block; -1
  rewinds without counting.
\<close>

theorem loop_count_semantics:
  "(current_pos ctx + 16 \<le> gif_size ctx \<and> gif_data ctx (current_pos ctx) = 11
      \<and> gif_data ctx (current_pos ctx + 12) = 3
      \<longrightarrow> loop_count (gif_read_application_ext ctx)
            = gif_read_u16_le (gif_data ctx) (current_pos ctx + 14))
   \<and> (current_pos ctx < gif_size ctx \<and> gif_data ctx (current_pos ctx) = 0x3B
      \<and> loop_count ctx = 0
      \<longrightarrow> gif_next_frame (Suc n) c0 ctx fb d
            = Some (0, ctx\<lparr>current_pos := current_pos ctx + 1\<rparr>, fb, d))
   \<and> (current_pos ctx < gif_size ctx \<and> gif_data ctx (current_pos ctx) = 0x3B
      \<and> 0 < sint (loop_count ctx)
      \<longrightarrow> gif_next_frame_scan (Suc n) ctx
            = gif_next_frame_scan n
                (gif_rewind (ctx\<lparr>current_pos := current_pos ctx + 1,
                                  loop_count := loop_count ctx - 1\<rparr>)))
   \<and> (current_pos ctx < gif_size ctx \<and> gif_data ctx (current_pos ctx) = 0x3B
      \<and> loop_count ctx = - 1
      \<longrightarrow> gif_next_frame_scan (Suc n) ctx
            = gif_next_frame_scan n (gif_rewind (ctx\<lparr>current_pos := current_pos ctx + 1\<rparr>)))"
proof (intro conjI impI)
  assume a: "current_pos ctx + 16 \<le> gif_size ctx \<and> gif_data ctx (current_pos ctx) = 11
      \<and> gif_data ctx (current_pos ctx + 12) = 3"
  then show "loop_count (gif_read_application_ext ctx)
            = gif_read_u16_le (gif_data ctx) (current_pos ctx + 14)"
    by (simp add: gif_read_application_ext_def gif_read_byte_internal_def
          gif_read_bytes_internal_def gif_skip_bytes_internal_def Let_def add.commute)
next
  assume "current_pos ctx < gif_size ctx \<and> gif_data ctx (current_pos ctx) = 0x3B
      \<and> loop_count ctx = 0"
  then show "gif_next_frame (Suc n) c0 ctx fb d
            = Some (0, ctx\<lparr>current_pos := current_pos ctx + 1\<rparr>, fb, d)"
    by (simp add: gif_next_frame_def gif_next_frame_restart_def gif_read_byte_internal_def)
next
  assume "current_pos ctx < gif_size ctx \<and> gif_data ctx (current_pos ctx) = 0x3B
      \<and> 0 < sint (loop_count ctx)"
  then show "gif_next_frame_scan (Suc n) ctx
            = gif_next_frame_scan n
                (gif_rewind (ctx\<lparr>current_pos := current_pos ctx + 1,
                                  loop_count := loop_count ctx - 1\<rparr>))"
    by (simp add: gif_read_byte_internal_def)
next
  assume "current_pos ctx < gif_size ctx \<and> gif_data ctx (current_pos ctx) = 0x3B
      \<and> loop_count ctx = - 1"
  then show "gif_next_frame_scan (Suc n) ctx
            = gif_next_frame_scan n (gif_rewind (ctx\<lparr>current_pos := current_pos ctx + 1\<rparr>))"
    by (simp add: gif_read_byte_internal_def)
qed

theorem loop_count_semantics_witness:
  "current_pos ((open_gif (loop_gif 5))\<lparr>current_pos := 27\<rparr>) + 16
     \<le> gif_size ((open_gif (loop_gif 5))\<lparr>current_pos := 27\<rparr>)
   \<and> gif_data (open_gif (loop_gif 5)) 27 = 11 \<and> gif_data (open_gif (loop_gif 5)) 39 = 3
   \<and> loop_count (gif_read_application_ext ((open_gif (loop_gif 5))\<lparr>current_pos := 27\<rparr>)) = 5
   \<and> gif_data (open_gif (loop_gif 0)) 59 = 0x3B
   \<and> gif_next_frame 10 0 ((open_gif (loop_gif 0))\<lparr>current_pos := 59, loop_count := 0\<rparr>)
         (\<lambda>_. 0) 0
       = Some (0, (open_gif (loop_gif 0))\<lparr>current_pos := 60, loop_count := 0\<rparr>, (\<lambda>_. 0), 0)
   \<and> gif_next_frame_scan 10 ((open_gif (loop_gif 0))\<lparr>current_pos := 59, loop_count := 2\<rparr>)
       = gif_next_frame_scan 9 ((open_gif (loop_gif 0))\<lparr>current_pos := 25, loop_count := 1\<rparr>)
   \<and> gif_next_frame_scan 10 (open_gif (loop_gif 0)\<lparr>current_pos := 59\<rparr>)
       = gif_next_frame_scan 9 (open_gif (loop_gif 0))"
proof -
  let ?a = "(open_gif (loop_gif 5))\<lparr>current_pos := 27\<rparr>"
  let ?b = "(open_gif (loop_gif 0))\<lparr>current_pos := 59, loop_count := 0\<rparr>"
  let ?c = "(open_gif (loop_gif 0))\<lparr>current_pos := 59, loop_count := 2\<rparr>"
  let ?d = "(open_gif (loop_gif 0))\<lparr>current_pos := 59\<rparr>"
  from loop_count_semantics [of ?a 9 0 "\<lambda>_. 0" 0]
       loop_count_semantics [of ?b 9 0 "\<lambda>_. 0" 0]
       loop_count_semantics [of ?c 9 0 "\<lambda>_. 0" 0]
       loop_count_semantics [of ?d 9 0 "\<lambda>_. 0" 0]
  show ?thesis
    apply (simp only: open_loop)
    apply (simp add: null_context_def store_eval loop_gif_def gif_header_def
             image_block_def gif_read_u16_le_def gif_rewind_def)
    done
qed

end
